theory Spec2Isabelle
  imports Main "HOL-Library.Sublist"
begin

section \<open>JavaScript values exchanged between the UI thread and the worker\<close>

text \<open>
  Everything that crosses \<^verbatim>\<open>postMessage\<close>, everything the Command Handler resolves with
  and everything the script yields is a structured-clone value.  \<open>JFile name content\<close>
  is a browser \<^verbatim>\<open>File\<close>; \<open>JObj\<close> is a plain object, its properties in insertion order.
  \<open>JNum\<close> carries the integral numbers only.
\<close>

datatype js =
    JUndefined
  | JNull
  | JBool bool
  | JNum int
  | JStr string
  | JFile string string
  | JArr "js list"
  | JObj "(string \<times> js) list"

datatype exn =
    TypeError string
  | ErrnoError nat
  | NetworkError string
  | PythonError string

text \<open>\<^verbatim>\<open>error.toString()\<close>: the name of the error, a colon and its message.\<close>

fun exn_toString :: "exn \<Rightarrow> string" where
  "exn_toString (TypeError m) = ''TypeError: '' @ m"
| "exn_toString (ErrnoError n) = ''ErrnoError: FS error''"
| "exn_toString (NetworkError m) = ''NetworkError: '' @ m"
| "exn_toString (PythonError m) = ''PythonError: '' @ m"

text \<open>Reading a property: \<^verbatim>\<open>v.k\<close>.  It throws on \<^verbatim>\<open>undefined\<close> and \<^verbatim>\<open>null\<close>
  and yields \<^verbatim>\<open>undefined\<close> for a property that is not there.  Of a file the code reads
  the \<^verbatim>\<open>name\<close> only, and of the primitive values and arrays no property at all.
  (The messages of the type errors are worded as V8 words them; the wording is the
  JavaScript engine's, and no property proved below depends on it.)\<close>

fun get :: "js \<Rightarrow> string \<Rightarrow> exn + js" where
  "get JUndefined k =
     Inl (TypeError (''Cannot read properties of undefined (reading '' @ [CHR 0x27] @ k @ [CHR 0x27] @ '')''))"
| "get JNull k =
     Inl (TypeError (''Cannot read properties of null (reading '' @ [CHR 0x27] @ k @ [CHR 0x27] @ '')''))"
| "get (JObj kvs) k = Inr (case map_of kvs k of None \<Rightarrow> JUndefined | Some v \<Rightarrow> v)"
| "get (JFile n c) k = Inr (if k = ''name'' then JStr n else JUndefined)"
| "get v k = Inr JUndefined"

text \<open>The two tags that the code switches on: \<^verbatim>\<open>v.__type__ === tag\<close> and
  \<^verbatim>\<open>v.eventType === tag\<close>.\<close>

definition has_type :: "string \<Rightarrow> js \<Rightarrow> bool" where
  "has_type tag v = (get v ''__type__'' = Inr (JStr tag))"

definition has_eventType :: "string \<Rightarrow> js \<Rightarrow> bool" where
  "has_eventType tag v = (get v ''eventType'' = Inr (JStr tag))"

fun digits :: "nat \<Rightarrow> string" where
  "digits n = (if n < 10 then [''0123456789'' ! n]
               else digits (n div 10) @ [''0123456789'' ! (n mod 10)])"

fun join :: "string \<Rightarrow> string list \<Rightarrow> string" where
  "join sep [] = []"
| "join sep [x] = x"
| "join sep (x # y # ys) = x @ sep @ join sep (y # ys)"

text \<open>\<^verbatim>\<open>String(v)\<close>, as a template literal and \<^verbatim>\<open>+\<close> on a string apply it.
  (Numbers print in decimal, which is what JavaScript does below \<open>10\<^sup>2\<^sup>1\<close>.)\<close>

fun to_string :: "js \<Rightarrow> string" where
  "to_string JUndefined = ''undefined''"
| "to_string JNull = ''null''"
| "to_string (JBool b) = (if b then ''true'' else ''false'')"
| "to_string (JNum n) = (if n < 0 then ''-'' @ digits (nat (- n)) else digits (nat n))"
| "to_string (JStr s) = s"
| "to_string (JFile n c) = ''[object File]''"
| "to_string (JArr xs) =
     join '','' (map (\<lambda>x. if x = JUndefined \<or> x = JNull then [] else to_string x) xs)"
| "to_string (JObj kvs) = ''[object Object]''"

text \<open>\<^verbatim>\<open>JSON.stringify\<close>: the quoting of a string, then the serialisation of a value.
  The result is \<open>None\<close> where JavaScript returns \<^verbatim>\<open>undefined\<close>.\<close>

definition json_escape :: "char \<Rightarrow> string" where
  "json_escape c =
     (if c = CHR 0x22 then [CHR 0x5C, CHR 0x22]
      else if c = CHR 0x5C then [CHR 0x5C, CHR 0x5C]
      else if c = CHR 0x08 then [CHR 0x5C, CHR ''b'']
      else if c = CHR 0x09 then [CHR 0x5C, CHR ''t'']
      else if c = CHR 0x0A then [CHR 0x5C, CHR ''n'']
      else if c = CHR 0x0C then [CHR 0x5C, CHR ''f'']
      else if c = CHR 0x0D then [CHR 0x5C, CHR ''r'']
      else if of_char c < (32 :: nat) then
        [CHR 0x5C, CHR ''u'', CHR ''0'', CHR ''0'',
         ''0123456789abcdef'' ! (of_char c div 16), ''0123456789abcdef'' ! (of_char c mod 16)]
      else [c])"

definition json_quote :: "string \<Rightarrow> string" where
  "json_quote s = [CHR 0x22] @ concat (map json_escape s) @ [CHR 0x22]"

fun json_text :: "js \<Rightarrow> string option" where
  "json_text JUndefined = None"
| "json_text JNull = Some ''null''"
| "json_text (JBool b) = Some (if b then ''true'' else ''false'')"
| "json_text (JNum n) = Some (to_string (JNum n))"
| "json_text (JStr s) = Some (json_quote s)"
| "json_text (JFile n c) = Some ''{}''"
| "json_text (JArr xs) =
     Some (''['' @ join '','' (map (\<lambda>x. case json_text x of None \<Rightarrow> ''null'' | Some t \<Rightarrow> t) xs) @ '']'')"
| "json_text (JObj kvs) =
     Some (''{'' @ join '',''
        (concat (map (\<lambda>(k, v). case json_text v of None \<Rightarrow> [] | Some t \<Rightarrow> [json_quote k @ '':'' @ t]) kvs))
        @ ''}'')"

definition JSON_stringify :: "js \<Rightarrow> js" where
  "JSON_stringify v = (case json_text v of None \<Rightarrow> JUndefined | Some t \<Rightarrow> JStr t)"


section \<open>The Run-Cycle Engine: \<^verbatim>\<open>WorkerProcessingEngine\<close> (worker_engine.ts)\<close>

text \<open>
  The continuation that \<^verbatim>\<open>.then\<close> registers for a fulfilled Command Handler promise is
  either \<^verbatim>\<open>() => {}\<close> or \<^verbatim>\<open>(response) => this.nextRunCycle(response)\<close>; the continuation
  for a rejected one is \<^verbatim>\<open>() => {}\<close> at all three call sites.
\<close>

datatype callback = Noop | NextRunCycle

datatype outcome = Fulfilled js | Rejected js

text \<open>What either side does, in the order in which it does it.  \<open>Received\<close> and \<open>Settled\<close>
  mark the start of an event handler and of a promise reaction; \<open>Uncaught\<close> is an exception
  that leaves an event handler, \<open>Unhandled\<close> a rejected promise nobody handles.\<close>

datatype action =
    Log string "js list"
  | Received js
  | Settled nat outcome
  | Post js
  | Dispatch js callback
  | Uncaught exn
  | Unhandled exn

text \<open>
  \<open>worker\<close> is the Worker handle: the messages posted to it and not yet delivered.
  \<open>resolveInitialized\<close> is \<open>None\<close> until \<^verbatim>\<open>start\<close> assigns it; \<open>Some b\<close> is the resolve function
  of the latest initialisation promise, \<open>b\<close> telling whether that promise is resolved already.
  \<open>promises\<close> holds one entry for each call of \<^verbatim>\<open>commandHandler.onCommand\<close>, in call order:
  \<open>Some cb\<close> while the returned promise is pending, \<open>None\<close> once it is settled.
\<close>

record engine =
  sessionId :: string
  worker :: "js list"
  resolveInitialized :: "bool option"
  promises :: "callback option list"
  etrace :: "action list"

definition console_log :: "string \<Rightarrow> js list \<Rightarrow> engine \<Rightarrow> engine" where
  "console_log label args e = e\<lparr>etrace := etrace e @ [Log label args]\<rparr>"

definition postMessage :: "js \<Rightarrow> engine \<Rightarrow> engine" where
  "postMessage m e = e\<lparr>worker := worker e @ [m], etrace := etrace e @ [Post m]\<rparr>"

text \<open>\<^verbatim>\<open>this.commandHandler.onCommand(command).then(cb, () => {})\<close>.  The handler is the
  excluded UI layer; by its interface it returns a promise, which the environment settles later.\<close>

definition onCommand_then :: "js \<Rightarrow> callback \<Rightarrow> engine \<Rightarrow> engine" where
  "onCommand_then command cb e =
     e\<lparr>promises := promises e @ [Some cb], etrace := etrace e @ [Dispatch command cb]\<rparr>"

definition trackUserStart :: "string \<Rightarrow> engine \<Rightarrow> engine" where
  "trackUserStart sid e =
     (let key = sid @ ''-tracking'';
          jsonString = JSON_stringify (JObj [(''message'', JStr ''user started'')]);
          command = JObj [(''__type__'', JStr ''CommandSystemDonate''),
                          (''key'', JStr key),
                          (''json_string'', jsonString)]
      in onCommand_then command Noop e)"

definition constructor :: "string \<Rightarrow> engine" where
  "constructor sid =
     trackUserStart sid
       \<lparr>sessionId = sid, worker = [], resolveInitialized = None, promises = [], etrace = []\<rparr>"

definition sendSystemEvent :: "string \<Rightarrow> engine \<Rightarrow> engine" where
  "sendSystemEvent name e =
     onCommand_then (JObj [(''__type__'', JStr ''CommandSystemEvent''), (''name'', JStr name)]) Noop e"

definition firstRunCycle :: "engine \<Rightarrow> engine" where
  "firstRunCycle e =
     postMessage (JObj [(''eventType'', JStr ''firstRunCycle''), (''sessionId'', JStr (sessionId e))]) e"

definition nextRunCycle :: "js \<Rightarrow> engine \<Rightarrow> engine" where
  "nextRunCycle response e =
     postMessage (JObj [(''eventType'', JStr ''nextRunCycle''), (''response'', response)])
       (console_log ''next cycle'' [] e)"

text \<open>\<^verbatim>\<open>isCommand\<close> is imported from types/commands, which is not among the sources:
  it is a parameter of the model.\<close>

definition handleRunCycle :: "(js \<Rightarrow> bool) \<Rightarrow> js \<Rightarrow> engine \<Rightarrow> engine" where
  "handleRunCycle isCommand command e =
     (if isCommand command then onCommand_then command NextRunCycle e else e)"

text \<open>The reaction of \<^verbatim>\<open>start\<close> to the resolved initialisation promise.\<close>

definition initialized_then :: "engine \<Rightarrow> engine" where
  "initialized_then e = firstRunCycle (sendSystemEvent ''initialized'' e)"

definition waitForInitialization :: "engine \<Rightarrow> engine" where
  "waitForInitialization e =
     postMessage (JObj [(''eventType'', JStr ''initialise'')]) (e\<lparr>resolveInitialized := Some False\<rparr>)"

definition start :: "engine \<Rightarrow> engine" where
  "start e = waitForInitialization (console_log ''[WorkerProcessingEngine] started'' [] e)"

text \<open>\<^verbatim>\<open>handleEvent(event)\<close> on \<open>event.data = data\<close>; \<open>Some x\<close> is the exception it throws.
  Resolving a pending initialisation promise runs \<open>initialized_then\<close> before any other event.\<close>

definition handleEvent :: "(js \<Rightarrow> bool) \<Rightarrow> js \<Rightarrow> engine \<Rightarrow> exn option \<times> engine" where
  "handleEvent isCommand data e =
     (case get data ''eventType'' of
        Inl x \<Rightarrow> (Some x, e)
      | Inr eventType \<Rightarrow>
          let e1 = console_log ''[ReactEngine] received eventType: '' [eventType] e in
          if eventType = JStr ''initialiseDone'' then
            let e2 = console_log ''[ReactEngine] received: initialiseDone'' [] e1 in
            (case resolveInitialized e2 of
               None \<Rightarrow> (Some (TypeError ''this.resolveInitialized is not a function''), e2)
             | Some resolved \<Rightarrow>
                 (None, if resolved then e2
                        else initialized_then (e2\<lparr>resolveInitialized := Some True\<rparr>)))
          else if eventType = JStr ''runCycleDone'' then
            (case get data ''scriptEvent'' of
               Inl x \<Rightarrow> (Some x, e1)
             | Inr scriptEvent \<Rightarrow>
                 (None, handleRunCycle isCommand scriptEvent
                          (console_log ''[ReactEngine] received: event'' [scriptEvent] e1)))
          else
            (None, console_log ''[ReactEngine] received unsupported flow event: '' [eventType] e1))"

text \<open>\<^verbatim>\<open>this.worker.onmessage\<close>, as the constructor installs it.  An exception that leaves
  the handler is reported by the browser and goes no further.  (\<^verbatim>\<open>worker.onerror\<close> only logs,
  and \<^verbatim>\<open>terminate\<close> only discards the worker: neither is modelled.)\<close>

definition onmessage :: "(js \<Rightarrow> bool) \<Rightarrow> js \<Rightarrow> engine \<Rightarrow> engine" where
  "onmessage isCommand data e =
     (let e0 = e\<lparr>etrace := etrace e @ [Received data]\<rparr> in
      case get data ''eventType'' of
        Inl x \<Rightarrow> e0\<lparr>etrace := etrace e0 @ [Uncaught x]\<rparr>
      | Inr eventType \<Rightarrow>
          (case handleEvent isCommand data
                  (console_log ''[WorkerProcessingEngine] Received event from worker: '' [eventType] e0) of
             (None, e') \<Rightarrow> e'
           | (Some x, e') \<Rightarrow> e'\<lparr>etrace := etrace e' @ [Uncaught x]\<rparr>))"

text \<open>The Command Handler's promise number \<open>pid\<close> settles.  A promise settles once:
  a later settlement of the same promise has no effect.\<close>

definition settle :: "nat \<Rightarrow> outcome \<Rightarrow> engine \<Rightarrow> engine" where
  "settle pid out e =
     (if pid < length (promises e) then
        (case promises e ! pid of
           None \<Rightarrow> e
         | Some cb \<Rightarrow>
             let e' = e\<lparr>promises := (promises e)[pid := None],
                        etrace := etrace e @ [Settled pid out]\<rparr> in
             (case out of
                Fulfilled response \<Rightarrow>
                  (case cb of Noop \<Rightarrow> e' | NextRunCycle \<Rightarrow> nextRunCycle response e')
              | Rejected reason \<Rightarrow> e'))
      else e)"


section \<open>The Script Host: the worker script (py_worker.js)\<close>

subsection \<open>The part of the Pyodide file system that the worker touches\<close>

text \<open>
  \<^verbatim>\<open>self.pyodide.FS\<close> is Emscripten's file system.  The model keeps the nodes that were
  created there, the newest binding first: a plain directory or a mount point holding the
  files given to \<^verbatim>\<open>WORKERFS\<close>.  The error numbers are Emscripten's
  (\<open>10\<close> busy, \<open>20\<close> exists, \<open>28\<close> invalid, \<open>44\<close> no such entry).
\<close>

datatype node = Dir | MountPoint "js list"

type_synonym fs = "(string \<times> node) list"

definition analyzePath_exists :: "fs \<Rightarrow> string \<Rightarrow> bool" where
  "analyzePath_exists fs path = (map_of fs path \<noteq> None)"

definition FS_mkdir :: "string \<Rightarrow> fs \<Rightarrow> exn + fs" where
  "FS_mkdir path fs =
     (case map_of fs path of
        None \<Rightarrow> Inr ((path, Dir) # fs)
      | Some n \<Rightarrow> Inl (ErrnoError 20))"

definition FS_unmount :: "string \<Rightarrow> fs \<Rightarrow> exn + fs" where
  "FS_unmount path fs =
     (case map_of fs path of
        None \<Rightarrow> Inl (ErrnoError 44)
      | Some Dir \<Rightarrow> Inl (ErrnoError 28)
      | Some (MountPoint files) \<Rightarrow> Inr ((path, Dir) # fs))"

text \<open>\<^verbatim>\<open>WORKERFS\<close> splits the \<^verbatim>\<open>name\<close> of every file it is given.\<close>

definition file_name :: "js \<Rightarrow> exn + string" where
  "file_name file =
     (case get file ''name'' of
        Inl x \<Rightarrow> Inl x
      | Inr (JStr n) \<Rightarrow> Inr n
      | Inr v \<Rightarrow> Inl (TypeError ''path.split is not a function''))"

definition FS_mount :: "js list \<Rightarrow> string \<Rightarrow> fs \<Rightarrow> exn + fs" where
  "FS_mount files path fs =
     (case map_of fs path of
        None \<Rightarrow> Inl (ErrnoError 44)
      | Some (MountPoint old) \<Rightarrow> Inl (ErrnoError 10)
      | Some Dir \<Rightarrow>
          (case find (\<lambda>f. isl (file_name f)) files of
             Some f \<Rightarrow> Inl (projl (file_name f))
           | None \<Rightarrow> Inr ((path, MountPoint files) # fs)))"


subsection \<open>The scripting runtime\<close>

text \<open>
  Pyodide and the donation script are opaque: they are parameters of the model.
  \<open>'g\<close> is the state of the running script (the generator \<^verbatim>\<open>port.start\<close> returns).
  \<open>runPython code\<close> is \<^verbatim>\<open>self.pyodide.runPython(code)\<close>; \<open>send g payload\<close> is
  \<^verbatim>\<open>pyScript.send(payload)\<close> followed by \<^verbatim>\<open>toJs\<close> on its result, giving the exception
  thrown inside the \<^verbatim>\<open>try\<close> block or the converted value, and the script's next state;
  \<open>importScripts\<close> is the outcome of loading the Pyodide loader (\<open>Some x\<close> when it throws).
  \<open>send_of_undefined\<close> is the message of the \<^verbatim>\<open>TypeError\<close> that the JavaScript engine throws
  for \<^verbatim>\<open>pyScript.send\<close> while \<^verbatim>\<open>pyScript\<close> is undefined; its wording is the engine's.
\<close>

record 'g python =
  importScripts :: "exn option"
  runPython :: "string \<Rightarrow> exn + 'g"
  send :: "'g \<Rightarrow> js \<Rightarrow> (exn + js) \<times> 'g"
  send_of_undefined :: string

subsection \<open>The worker\<close>

datatype stage = LoadingPyodide | LoadingPackages | InstallingPort

text \<open>
  \<open>pyScript\<close> and \<open>pyodide\<close> are the worker's globals, \<open>None\<close> while undefined; of the Pyodide
  instance the model keeps its file system.  \<open>loading\<close> holds the promise chains of
  \<^verbatim>\<open>initialise()\<close> that are still running, \<open>outbox\<close> the messages posted to the engine and
  not yet delivered.
\<close>

record 'g host =
  pyScript :: "'g option"
  pyodide :: "fs option"
  loading :: "stage list"
  outbox :: "js list"
  wtrace :: "action list"

definition wlog :: "string \<Rightarrow> js list \<Rightarrow> 'g host \<Rightarrow> 'g host" where
  "wlog label args w = w\<lparr>wtrace := wtrace w @ [Log label args]\<rparr>"

definition self_postMessage :: "js \<Rightarrow> 'g host \<Rightarrow> 'g host" where
  "self_postMessage m w = w\<lparr>outbox := outbox w @ [m], wtrace := wtrace w @ [Post m]\<rparr>"

definition generateErrorMessage :: "string \<Rightarrow> js" where
  "generateErrorMessage stacktrace =
     JObj [(''__type__'', JStr ''CommandUIRender''),
           (''page'', JObj [(''__type__'', JStr ''PropsUIPageError''),
                            (''stacktrace'', JStr stacktrace)])]"

definition runCycleDone :: "js \<Rightarrow> js" where
  "runCycleDone scriptEvent = JObj [(''eventType'', JStr ''runCycleDone''), (''scriptEvent'', scriptEvent)]"

definition runCycle :: "'g python \<Rightarrow> js \<Rightarrow> 'g host \<Rightarrow> 'g host" where
  "runCycle py payload w =
     (let w1 = wlog (''[ProcessingWorker] runCycle '' @ to_string (JSON_stringify payload)) [] w in
      case pyScript w1 of
        None \<Rightarrow>
          self_postMessage
            (runCycleDone (generateErrorMessage (exn_toString (TypeError (send_of_undefined py)))))
            w1
      | Some g \<Rightarrow>
          (case send py g payload of
             (Inr scriptEvent, g') \<Rightarrow>
               self_postMessage (runCycleDone scriptEvent) (w1\<lparr>pyScript := Some g'\<rparr>)
           | (Inl error, g') \<Rightarrow>
               self_postMessage (runCycleDone (generateErrorMessage (exn_toString error)))
                 (w1\<lparr>pyScript := Some g'\<rparr>)))"

definition directoryName :: string where
  "directoryName = ''/file-input''"

text \<open>\<^verbatim>\<open>copyFileToPyFS(file, resolve)\<close>: \<open>Inr v\<close> is the value it resolves the promise with,
  \<open>Inl x\<close> the exception it throws before it gets there.\<close>

definition copyFileToPyFS :: "js \<Rightarrow> 'g host \<Rightarrow> (exn + js) \<times> 'g host" where
  "copyFileToPyFS file w =
     (case pyodide w of
        None \<Rightarrow> (Inl (TypeError ''Cannot read properties of undefined (reading 'FS')''), w)
      | Some fs \<Rightarrow>
          (case (if \<not> analyzePath_exists fs directoryName then FS_mkdir directoryName fs
                 else FS_unmount directoryName fs) of
             Inl x \<Rightarrow> (Inl x, w)
           | Inr fs1 \<Rightarrow>
               (case FS_mount [file] directoryName fs1 of
                  Inl x \<Rightarrow> (Inl x, w\<lparr>pyodide := Some fs1\<rparr>)
                | Inr fs2 \<Rightarrow>
                    (case get file ''name'' of
                       Inl x \<Rightarrow> (Inl x, w\<lparr>pyodide := Some fs2\<rparr>)
                     | Inr name \<Rightarrow>
                         (Inr (JObj [(''__type__'', JStr ''PayloadString''),
                                     (''value'', JStr (directoryName @ ''/'' @ to_string name))]),
                          w\<lparr>pyodide := Some fs2\<rparr>)))))"

text \<open>\<^verbatim>\<open>unwrap(response)\<close> either throws before it returns its promise, or returns a
  promise that is rejected or resolved by the time the executor is through.\<close>

datatype settled = is_Threw: Threw exn | is_Rejects: Rejects exn | is_Resolves: Resolves js

definition unwrap :: "js \<Rightarrow> 'g host \<Rightarrow> settled \<times> 'g host" where
  "unwrap response w =
     (case get response ''payload'' of
        Inl x \<Rightarrow> (Threw x, w)
      | Inr payload \<Rightarrow>
          let w1 = wlog (''[ProcessingWorker] unwrap response: '' @ to_string (JSON_stringify payload)) [] w in
          (case get payload ''__type__'' of
             Inl x \<Rightarrow> (Rejects x, w1)
           | Inr ty \<Rightarrow>
               if ty = JStr ''PayloadFile'' then
                 (case get payload ''value'' of
                    Inl x \<Rightarrow> (Rejects x, w1)
                  | Inr file \<Rightarrow>
                      (case copyFileToPyFS file w1 of
                         (Inl x, w2) \<Rightarrow> (Rejects x, w2)
                       | (Inr v, w2) \<Rightarrow> (Resolves v, w2)))
               else (Resolves payload, w1)))"

text \<open>\<^verbatim>\<open>initialise()\<close> up to the first promise it waits for.\<close>

definition initialise :: "'g python \<Rightarrow> 'g host \<Rightarrow> exn option \<times> 'g host" where
  "initialise py w =
     (let w1 = wlog ''[ProcessingWorker] initialise'' [] w in
      case importScripts py of
        Some x \<Rightarrow> (Some x, w1)
      | None \<Rightarrow>
          (None, (wlog ''[ProcessingWorker] loading Pyodide'' [] w1)
                   \<lparr>loading := loading w1 @ [LoadingPyodide]\<rparr>))"

text \<open>The promise that chain number \<open>i\<close> of \<^verbatim>\<open>initialise()\<close> waits for settles: rejected
  with \<open>x\<close> (\<open>Some x\<close>), which nothing handles, or fulfilled, which starts the next stage and
  after the last one posts \<^verbatim>\<open>initialiseDone\<close>.\<close>

definition initialise_then :: "nat \<Rightarrow> exn option \<Rightarrow> 'g host \<Rightarrow> 'g host" where
  "initialise_then i failure w =
     (if i < length (loading w) then
        let others = take i (loading w) @ drop (Suc i) (loading w) in
        (case failure of
           Some x \<Rightarrow> w\<lparr>loading := others, wtrace := wtrace w @ [Unhandled x]\<rparr>
         | None \<Rightarrow>
             (case loading w ! i of
                LoadingPyodide \<Rightarrow>
                  wlog ''[ProcessingWorker] loading packages'' []
                    (w\<lparr>pyodide := Some [], loading := (loading w)[i := LoadingPackages]\<rparr>)
              | LoadingPackages \<Rightarrow>
                  wlog ''[ProcessingWorker] load port package'' []
                    (w\<lparr>loading := (loading w)[i := InstallingPort]\<rparr>)
              | InstallingPort \<Rightarrow>
                  self_postMessage (JObj [(''eventType'', JStr ''initialiseDone'')])
                    (w\<lparr>loading := others\<rparr>)))
      else w)"

text \<open>The worker's \<^verbatim>\<open>onmessage\<close> on \<open>event.data = data\<close>.\<close>

definition host_onmessage :: "'g python \<Rightarrow> js \<Rightarrow> 'g host \<Rightarrow> 'g host" where
  "host_onmessage py data w =
     (let w0 = w\<lparr>wtrace := wtrace w @ [Received data]\<rparr> in
      case get data ''eventType'' of
        Inl x \<Rightarrow> w0\<lparr>wtrace := wtrace w0 @ [Uncaught x]\<rparr>
      | Inr eventType \<Rightarrow>
          if eventType = JStr ''initialise'' then
            (case initialise py w0 of
               (None, w1) \<Rightarrow> w1
             | (Some x, w1) \<Rightarrow> w1\<lparr>wtrace := wtrace w1 @ [Uncaught x]\<rparr>)
          else if eventType = JStr ''firstRunCycle'' then
            (case pyodide w0 of
               None \<Rightarrow>
                 w0\<lparr>wtrace := wtrace w0 @
                      [Uncaught (TypeError ''Cannot read properties of undefined (reading 'runPython')'')]\<rparr>
             | Some fs \<Rightarrow>
                 (case get data ''sessionId'' of
                    Inl x \<Rightarrow> w0\<lparr>wtrace := wtrace w0 @ [Uncaught x]\<rparr>
                  | Inr sid \<Rightarrow>
                      (case runPython py (''port.start('' @ to_string sid @ '')'') of
                         Inl x \<Rightarrow> w0\<lparr>wtrace := wtrace w0 @ [Uncaught x]\<rparr>
                       | Inr g \<Rightarrow> runCycle py JNull (w0\<lparr>pyScript := Some g\<rparr>))))
          else if eventType = JStr ''nextRunCycle'' then
            (case get data ''response'' of
               Inl x \<Rightarrow> w0\<lparr>wtrace := wtrace w0 @ [Uncaught x]\<rparr>
             | Inr response \<Rightarrow>
                 (case unwrap response w0 of
                    (Threw x, w1) \<Rightarrow> w1\<lparr>wtrace := wtrace w1 @ [Uncaught x]\<rparr>
                  | (Rejects x, w1) \<Rightarrow> w1\<lparr>wtrace := wtrace w1 @ [Unhandled x]\<rparr>
                  | (Resolves userInput, w1) \<Rightarrow> runCycle py userInput w1))
          else
            wlog ''[ProcessingWorker] Received unsupported event: '' [eventType] w0)"


section \<open>The two sides and the channel between them\<close>

text \<open>
  A session is the engine, the worker and their environment: the application that calls
  \<^verbatim>\<open>start\<close>, the browser that delivers the posted messages in the order in which they
  were posted, the Command Handler that settles its promises, and the loading of Pyodide.
  What the environment does, and when, is the list of events.
\<close>

record 'g session =
  eng :: engine
  wrk :: "'g host"

datatype event =
    Start
  | ToWorker
  | ToEngine
  | Handler nat outcome
  | Loaded nat "exn option"

fun step :: "(js \<Rightarrow> bool) \<Rightarrow> 'g python \<Rightarrow> 'g session \<Rightarrow> event \<Rightarrow> 'g session" where
  "step isCommand py s Start = s\<lparr>eng := start (eng s)\<rparr>"
| "step isCommand py s ToWorker =
     (case worker (eng s) of
        [] \<Rightarrow> s
      | m # ms \<Rightarrow> s\<lparr>eng := (eng s)\<lparr>worker := ms\<rparr>, wrk := host_onmessage py m (wrk s)\<rparr>)"
| "step isCommand py s ToEngine =
     (case outbox (wrk s) of
        [] \<Rightarrow> s
      | m # ms \<Rightarrow> s\<lparr>wrk := (wrk s)\<lparr>outbox := ms\<rparr>, eng := onmessage isCommand m (eng s)\<rparr>)"
| "step isCommand py s (Handler pid out) = s\<lparr>eng := settle pid out (eng s)\<rparr>"
| "step isCommand py s (Loaded i failure) = s\<lparr>wrk := initialise_then i failure (wrk s)\<rparr>"

definition run :: "(js \<Rightarrow> bool) \<Rightarrow> 'g python \<Rightarrow> 'g session \<Rightarrow> event list \<Rightarrow> 'g session" where
  "run isCommand py s evs = foldl (step isCommand py) s evs"

text \<open>index.tsx creates the worker and the engine (through the assembly); nothing has
  happened in the worker yet.\<close>

definition new_session :: "string \<Rightarrow> 'g session" where
  "new_session sid =
     \<lparr>eng = constructor sid,
      wrk = \<lparr>pyScript = None, pyodide = None, loading = [], outbox = [], wtrace = []\<rparr>\<rparr>"


subsection \<open>What is under way in a session, and what its history shows\<close>

text \<open>The Command Handler promises that are pending and whose fulfilment posts
  \<^verbatim>\<open>nextRunCycle\<close>: the Commands of the script that are with the handler.\<close>

definition awaited :: "callback option list \<Rightarrow> nat" where
  "awaited ps = length (filter (\<lambda>p. p = Some NextRunCycle) ps)"

text \<open>Everything that can still make one side act: the messages on their way in either
  direction, the loading of the runtime, and the Commands with the handler.\<close>

definition in_flight :: "'g session \<Rightarrow> nat" where
  "in_flight s =
     length (worker (eng s)) + length (loading (wrk s)) + length (outbox (wrk s))
       + awaited (promises (eng s))"

fun posted :: "action \<Rightarrow> bool" where
  "posted (Post m) = True"
| "posted a = False"

fun posts_next :: "action \<Rightarrow> bool" where
  "posts_next (Post m) = has_eventType ''nextRunCycle'' m"
| "posts_next a = False"

fun takes_command :: "action \<Rightarrow> bool" where
  "takes_command (Dispatch command cb) = (cb = NextRunCycle)"
| "takes_command a = False"

fun dispatches :: "action \<Rightarrow> bool" where
  "dispatches (Dispatch command cb) = True"
| "dispatches a = False"

fun settles :: "nat \<Rightarrow> action \<Rightarrow> bool" where
  "settles pid (Settled q out) = (q = pid)"
| "settles pid a = False"

text \<open>On a history read backwards: the handler promise of the current Command, that is of
  the Command the engine took last from the script.  The promises are numbered in the order
  of the calls of the handler.\<close>

fun current :: "action list \<Rightarrow> nat option" where
  "current [] = None"
| "current (Dispatch command cb # earlier) =
     (if cb = NextRunCycle then Some (length (filter dispatches earlier)) else current earlier)"
| "current (a # earlier) = current earlier"

text \<open>On a history read backwards: every \<^verbatim>\<open>nextRunCycle\<close> message was posted by the
  reaction to the fulfilment of the promise of the current Command, which had not settled
  before, and carries the response that promise was fulfilled with.\<close>

fun justified :: "action list \<Rightarrow> bool" where
  "justified [] = True"
| "justified (Post m # earlier) =
     ((has_eventType ''nextRunCycle'' m \<longrightarrow>
         (case earlier of
            Log label args # Settled pid (Fulfilled response) # before \<Rightarrow>
              m = JObj [(''eventType'', JStr ''nextRunCycle''), (''response'', response)]
              \<and> current before = Some pid
              \<and> \<not> list_ex (settles pid) before
          | _ \<Rightarrow> False))
      \<and> justified earlier)"
| "justified (a # earlier) = justified earlier"

text \<open>The actions of the engine that belong to the initialisation handshake.\<close>

fun handshake :: "action \<Rightarrow> bool" where
  "handshake (Post m) = (has_eventType ''initialise'' m \<or> has_eventType ''firstRunCycle'' m)"
| "handshake (Received m) = has_eventType ''initialiseDone'' m"
| "handshake (Dispatch command cb) = (cb = Noop \<and> has_type ''CommandSystemEvent'' command)"
| "handshake a = False"


text \<open>The actions that leave no mark but in the log: logging and failing.\<close>

fun quiet :: "action \<Rightarrow> bool" where
  "quiet (Log label args) = True"
| "quiet (Uncaught x) = True"
| "quiet (Unhandled x) = True"
| "quiet a = False"

text \<open>The promises and the history agree: there is one promise for each call of the
  handler; a pending promise whose fulfilment posts \<^verbatim>\<open>nextRunCycle\<close> is the promise of the
  current Command and has not settled; and only promises that exist have settled.\<close>

definition tracked :: "engine \<Rightarrow> bool" where
  "tracked e \<longleftrightarrow>
     length (promises e) = length (filter dispatches (etrace e))
     \<and> (\<forall>i < length (promises e). promises e ! i = Some NextRunCycle \<longrightarrow>
            current (rev (etrace e)) = Some i \<and> \<not> list_ex (settles i) (etrace e))
     \<and> (\<forall>pid. list_ex (settles pid) (etrace e) \<longrightarrow> pid < length (promises e))"

text \<open>The engine has posted no more \<^verbatim>\<open>nextRunCycle\<close> messages than it has taken Commands
  from the script, not counting those still with the handler.\<close>

definition owed :: "engine \<Rightarrow> bool" where
  "owed e \<longleftrightarrow>
     length (filter posts_next (etrace e)) + awaited (promises e)
       \<le> length (filter takes_command (etrace e))"


text \<open>The three phases of the initialisation handshake of the session \<open>sid\<close>: before
  \<^verbatim>\<open>start\<close>; while the one \<^verbatim>\<open>initialise\<close> request is on its way, being served, or
  answered and not yet received; and after the engine has received \<^verbatim>\<open>initialiseDone\<close>.\<close>

definition before_start :: "string \<Rightarrow> 'g session \<Rightarrow> bool" where
  "before_start sid s \<longleftrightarrow>
     sessionId (eng s) = sid \<and> resolveInitialized (eng s) = None
     \<and> worker (eng s) = [] \<and> loading (wrk s) = [] \<and> outbox (wrk s) = []
     \<and> awaited (promises (eng s)) = 0
     \<and> filter handshake (etrace (eng s)) = []"

definition initialising :: "string \<Rightarrow> 'g session \<Rightarrow> bool" where
  "initialising sid s \<longleftrightarrow>
     sessionId (eng s) = sid \<and> resolveInitialized (eng s) = Some False
     \<and> awaited (promises (eng s)) = 0
     \<and> filter handshake (etrace (eng s)) = [Post (JObj [(''eventType'', JStr ''initialise'')])]
     \<and> (worker (eng s) = [JObj [(''eventType'', JStr ''initialise'')]]
           \<and> loading (wrk s) = [] \<and> outbox (wrk s) = []
         \<or> worker (eng s) = [] \<and> length (loading (wrk s)) \<le> 1 \<and> outbox (wrk s) = []
         \<or> worker (eng s) = [] \<and> loading (wrk s) = []
           \<and> outbox (wrk s) = [JObj [(''eventType'', JStr ''initialiseDone'')]])"

definition completed_handshake :: "string \<Rightarrow> action list" where
  "completed_handshake sid =
     [Post (JObj [(''eventType'', JStr ''initialise'')]),
      Received (JObj [(''eventType'', JStr ''initialiseDone'')]),
      Dispatch (JObj [(''__type__'', JStr ''CommandSystemEvent''), (''name'', JStr ''initialized'')]) Noop,
      Post (JObj [(''eventType'', JStr ''firstRunCycle''), (''sessionId'', JStr sid)])]"

definition cycling :: "string \<Rightarrow> 'g session \<Rightarrow> bool" where
  "cycling sid s \<longleftrightarrow>
     sessionId (eng s) = sid \<and> resolveInitialized (eng s) = Some True
     \<and> loading (wrk s) = []
     \<and> filter handshake (etrace (eng s)) = completed_handshake sid
     \<and> list_all (\<lambda>m. \<not> has_eventType ''initialise'' m) (worker (eng s))
     \<and> list_all (\<lambda>m. \<not> has_eventType ''initialiseDone'' m) (outbox (wrk s))"


section \<open>The donation page: \<^verbatim>\<open>renderBody\<close>\<close>

text \<open>
  The five type guards are imported from types/prompts, which is not among the sources:
  they are parameters of the model.  An element \<open>FileInput body context\<close> stands for
  \<^verbatim>\<open><FileInput {...body} {...context} />\<close>, and so for the other four components.
\<close>

record guards =
  isPropsUIPromptFileInput :: "js \<Rightarrow> bool"
  isPropsUIPromptConfirm :: "js \<Rightarrow> bool"
  isPropsUIPromptConsentForm :: "js \<Rightarrow> bool"
  isPropsUIPromptRadioInput :: "js \<Rightarrow> bool"
  isPropsUIPromptQuestionnaire :: "js \<Rightarrow> bool"

datatype element =
    FileInput js js
  | Confirm js js
  | ConsentForm js js
  | RadioInput js js
  | Questionnaire js js

definition renderBody :: "guards \<Rightarrow> js \<Rightarrow> js \<Rightarrow> exn + element" where
  "renderBody gs locale props =
     (case get props ''resolve'' of
        Inl x \<Rightarrow> Inl x
      | Inr resolve \<Rightarrow>
          let context = JObj [(''locale'', locale), (''resolve'', resolve)] in
          (case get props ''body'' of
             Inl x \<Rightarrow> Inl x
           | Inr body \<Rightarrow>
               if isPropsUIPromptFileInput gs body then Inr (FileInput body context)
               else if isPropsUIPromptConfirm gs body then Inr (Confirm body context)
               else if isPropsUIPromptConsentForm gs body then Inr (ConsentForm body context)
               else if isPropsUIPromptRadioInput gs body then Inr (RadioInput body context)
               else if isPropsUIPromptQuestionnaire gs body then Inr (Questionnaire body context)
               else Inl (TypeError ''Unknown body type'')))"

text \<open>Modelled from the spec: the discriminators of types/commands and types/prompts,
  which are not among the sources, read as tests of the \<^verbatim>\<open>__type__\<close> tag for the Command
  tags and the prompt variants that the spec lists.  They serve as the concrete instance
  of the parameters above.\<close>

definition isCommand_by_tag :: "js \<Rightarrow> bool" where
  "isCommand_by_tag v =
     (has_type ''CommandSystemEvent'' v \<or> has_type ''CommandSystemDonate'' v
      \<or> has_type ''CommandUIRender'' v)"

definition guards_by_tag :: guards where
  "guards_by_tag =
     \<lparr>isPropsUIPromptFileInput = has_type ''PropsUIPromptFileInput'',
      isPropsUIPromptConfirm = has_type ''PropsUIPromptConfirm'',
      isPropsUIPromptConsentForm = has_type ''PropsUIPromptConsentForm'',
      isPropsUIPromptRadioInput = has_type ''PropsUIPromptRadioInput'',
      isPropsUIPromptQuestionnaire = has_type ''PropsUIPromptQuestionnaire''\<rparr>"

text \<open>A runtime for the examples.  Its script yields a page, then a donation, then a
  value that is no Command, and raises from then on; \<^verbatim>\<open>port.start\<close> takes the number it is
  given, and Python knows no name \<^verbatim>\<open>abc123\<close>.\<close>

definition example_script :: "nat python" where
  "example_script =
     \<lparr>importScripts = None,
      runPython = (\<lambda>code.
         if code = ''port.start(1700000000000)'' then Inr 0
         else if code = ''port.start(abc123)'' then
           Inl (PythonError ''NameError: name 'abc123' is not defined'')
         else Inl (PythonError ''SyntaxError: invalid syntax'')),
      send = (\<lambda>g payload.
         if g = 0 then
           (Inr (JObj [(''__type__'', JStr ''CommandUIRender''),
                       (''page'', JObj [(''__type__'', JStr ''PropsUIPageDonation'')])]), 1)
         else if g = 1 then
           (Inr (JObj [(''__type__'', JStr ''CommandSystemDonate''),
                       (''key'', JStr ''k''), (''json_string'', JStr ''{}'')]), 2)
         else if g = 2 then (Inr (JObj [(''__type__'', JStr ''CommandUnknown'')]), 3)
         else (Inl (PythonError ''StopIteration''), g)),
      send_of_undefined = ''Cannot read properties of undefined (reading 'send')''\<rparr>"




section \<open>Lemmas\<close>

lemmas engine_defs = constructor_def trackUserStart_def onCommand_then_def postMessage_def
  console_log_def sendSystemEvent_def firstRunCycle_def nextRunCycle_def handleRunCycle_def
  initialized_then_def waitForInitialization_def start_def

lemmas host_defs = wlog_def self_postMessage_def runCycle_def

subsection \<open>What one reaction of the engine does\<close>

lemma get_total: "get d k = Inr v \<Longrightarrow> \<exists>v'. get d k' = Inr v'"
  by (cases d) simp_all

lemma onmessage_effect:
  "\<exists>logs. list_all quiet logs \<and>
     (onmessage isCommand data e = e\<lparr>etrace := etrace e @ Received data # logs\<rparr>
        \<and> (has_eventType ''initialiseDone'' data \<longrightarrow> resolveInitialized e \<noteq> Some False)
      \<or> (\<exists>command. has_eventType ''runCycleDone'' data \<and> get data ''scriptEvent'' = Inr command
            \<and> isCommand command
            \<and> onmessage isCommand data e =
                e\<lparr>promises := promises e @ [Some NextRunCycle],
                  etrace := etrace e @ Received data # logs @ [Dispatch command NextRunCycle]\<rparr>)
      \<or> (has_eventType ''initialiseDone'' data \<and> resolveInitialized e = Some False
            \<and> onmessage isCommand data e =
                e\<lparr>worker := worker e @
                     [JObj [(''eventType'', JStr ''firstRunCycle''), (''sessionId'', JStr (sessionId e))]],
                  resolveInitialized := Some True,
                  promises := promises e @ [Some Noop],
                  etrace := etrace e @ Received data # logs @
                     [Dispatch (JObj [(''__type__'', JStr ''CommandSystemEvent''),
                                      (''name'', JStr ''initialized'')]) Noop,
                      Post (JObj [(''eventType'', JStr ''firstRunCycle''),
                                  (''sessionId'', JStr (sessionId e))])]\<rparr>))"
proof (cases "get data ''eventType''")
  case (Inl x)
  then have "onmessage isCommand data e = e\<lparr>etrace := etrace e @ Received data # [Uncaught x]\<rparr>"
    by (simp add: onmessage_def)
  moreover have "\<not> has_eventType ''initialiseDone'' data"
    using Inl by (simp add: has_eventType_def)
  ultimately show ?thesis
    by (intro exI[of _ "[Uncaught x]"]) simp
next
  case (Inr t)
  let ?l1 = "Log ''[WorkerProcessingEngine] Received event from worker: '' [t]"
  let ?l2 = "Log ''[ReactEngine] received eventType: '' [t]"
  consider (ready) "t = JStr ''initialiseDone''" | (cycle) "t = JStr ''runCycleDone''"
    | (other) "t \<noteq> JStr ''initialiseDone''" "t \<noteq> JStr ''runCycleDone''"
    by blast
  then show ?thesis
  proof cases
    case ready
    let ?l3 = "Log ''[ReactEngine] received: initialiseDone'' []"
    show ?thesis
    proof (cases "resolveInitialized e")
      case None
      with Inr ready show ?thesis
        by (intro exI[of _ "[?l1, ?l2, ?l3, Uncaught (TypeError ''this.resolveInitialized is not a function'')]"])
           (simp add: onmessage_def handleEvent_def console_log_def Let_def)
    next
      case (Some resolved)
      with Inr ready show ?thesis
        by (intro exI[of _ "[?l1, ?l2, ?l3]"])
           (simp add: onmessage_def handleEvent_def engine_defs Let_def has_eventType_def)
    qed
  next
    case cycle
    from get_total[OF Inr] obtain c where c: "get data ''scriptEvent'' = Inr c" by blast
    with Inr cycle show ?thesis
      by (intro exI[of _ "[?l1, ?l2, Log ''[ReactEngine] received: event'' [c]]"])
         (simp add: onmessage_def handleEvent_def engine_defs Let_def has_eventType_def)
  next
    case other
    with Inr show ?thesis
      by (intro exI[of _ "[?l1, ?l2, Log ''[ReactEngine] received unsupported flow event: '' [t]]"])
         (simp add: onmessage_def handleEvent_def engine_defs Let_def has_eventType_def)
  qed
qed


lemma start_effect:
  "start e =
     e\<lparr>worker := worker e @ [JObj [(''eventType'', JStr ''initialise'')]],
       resolveInitialized := Some False,
       etrace := etrace e @ [Log ''[WorkerProcessingEngine] started'' [],
                             Post (JObj [(''eventType'', JStr ''initialise'')])]\<rparr>"
  by (simp add: engine_defs)

lemma settle_effect:
  "settle pid out e = e
   \<or> (pid < length (promises e)
       \<and> (promises e ! pid = Some NextRunCycle \<longrightarrow> (\<exists>reason. out = Rejected reason))
       \<and> settle pid out e =
           e\<lparr>promises := (promises e)[pid := None], etrace := etrace e @ [Settled pid out]\<rparr>)
   \<or> (\<exists>response. out = Fulfilled response \<and> pid < length (promises e)
       \<and> promises e ! pid = Some NextRunCycle
       \<and> settle pid out e =
           e\<lparr>worker := worker e @
                [JObj [(''eventType'', JStr ''nextRunCycle''), (''response'', response)]],
             promises := (promises e)[pid := None],
             etrace := etrace e @
                [Settled pid out, Log ''next cycle'' [],
                 Post (JObj [(''eventType'', JStr ''nextRunCycle''), (''response'', response)])]\<rparr>)"
  by (cases out; cases "promises e ! pid"; cases "the (promises e ! pid)")
     (simp_all add: settle_def engine_defs Let_def)

subsection \<open>The history of the engine only grows\<close>

lemma etrace_start: "prefix (etrace e) (etrace (start e))"
  by (simp add: engine_defs)

lemma etrace_onmessage: "prefix (etrace e) (etrace (onmessage isCommand data e))"
  by (auto simp: onmessage_def handleEvent_def engine_defs Let_def split: sum.splits option.splits)

lemma etrace_settle: "prefix (etrace e) (etrace (settle pid out e))"
  by (auto simp: settle_def engine_defs Let_def split: option.splits outcome.splits callback.splits)

lemma etrace_step: "prefix (etrace (eng s)) (etrace (eng (step isCommand py s ev)))"
  by (cases ev) (auto simp: etrace_start etrace_onmessage etrace_settle split: list.splits)

lemma etrace_run: "prefix (etrace (eng s)) (etrace (eng (run isCommand py s evs)))"
  unfolding run_def
proof (induction evs arbitrary: s)
  case Nil
  show ?case by simp
next
  case (Cons ev evs)
  have "prefix (etrace (eng s)) (etrace (eng (step isCommand py s ev)))"
    by (rule etrace_step)
  also have "prefix \<dots> (etrace (eng (foldl (step isCommand py) (step isCommand py s ev) evs)))"
    by (rule Cons.IH)
  finally show ?case by simp
qed

subsection \<open>No step but \<open>Start\<close> adds to what is under way\<close>

lemma awaited_append [simp]: "awaited (ps @ qs) = awaited ps + awaited qs"
  by (simp add: awaited_def)

lemma awaited_single [simp]:
  "awaited [p] = (if p = Some NextRunCycle then 1 else 0)"
  by (simp add: awaited_def)

lemma awaited_settled:
  "i < length ps \<Longrightarrow>
   awaited (ps[i := None]) + (if ps ! i = Some NextRunCycle then 1 else 0) = awaited ps"
proof (induction ps arbitrary: i)
  case Nil
  then show ?case by simp
next
  case (Cons p ps)
  show ?case
  proof (cases i)
    case 0
    then show ?thesis by (simp add: awaited_def)
  next
    case (Suc j)
    with Cons.prems have "j < length ps" by simp
    from Cons.IH[OF this] Suc show ?thesis by (simp add: awaited_def)
  qed
qed

lemma flight_start:
  "length (worker (start e)) = Suc (length (worker e)) \<and> promises (start e) = promises e"
  by (simp add: engine_defs)

lemma flight_onmessage:
  "length (worker (onmessage isCommand data e)) + awaited (promises (onmessage isCommand data e))
     \<le> Suc (length (worker e) + awaited (promises e))"
  by (auto simp: onmessage_def handleEvent_def engine_defs Let_def split: sum.splits option.splits)

lemma flight_settle:
  "length (worker (settle pid out e)) + awaited (promises (settle pid out e))
     \<le> length (worker e) + awaited (promises e)"
proof (cases "pid < length (promises e)")
  case False
  then show ?thesis by (simp add: settle_def)
next
  case True
  from awaited_settled[OF True] show ?thesis
    by (auto simp: settle_def engine_defs Let_def
             split: option.splits outcome.splits callback.splits if_splits)
qed

lemma flight_runCycle:
  "loading (runCycle py payload w) = loading w \<and>
   length (outbox (runCycle py payload w)) = Suc (length (outbox w))"
  by (auto simp: host_defs Let_def split: option.splits sum.splits prod.splits)

lemma flight_copyFileToPyFS:
  "copyFileToPyFS file w = (r, w') \<Longrightarrow> loading w' = loading w \<and> outbox w' = outbox w"
  by (auto simp: copyFileToPyFS_def split: option.splits sum.splits)

lemma flight_unwrap:
  "unwrap response w = (r, w') \<Longrightarrow> loading w' = loading w \<and> outbox w' = outbox w"
  by (auto simp: unwrap_def Let_def wlog_def split: sum.splits prod.splits if_splits
           dest!: flight_copyFileToPyFS)

lemma flight_host_onmessage:
  "length (loading (host_onmessage py data w)) + length (outbox (host_onmessage py data w))
     \<le> Suc (length (loading w) + length (outbox w))"
  by (auto simp: host_onmessage_def initialise_def Let_def wlog_def flight_runCycle
           split: sum.splits option.splits prod.splits settled.splits dest!: flight_unwrap)

lemma flight_initialise_then:
  "length (loading (initialise_then i failure w)) + length (outbox (initialise_then i failure w))
     \<le> length (loading w) + length (outbox w)"
  by (auto simp: initialise_then_def Let_def host_defs split: option.splits stage.splits)

lemma in_flight_step:
  "in_flight (step isCommand py s ev) \<le> in_flight s + (if ev = Start then 1 else 0)"
proof (cases ev)
  case Start
  then show ?thesis by (simp add: in_flight_def flight_start)
next
  case ToWorker
  then show ?thesis
    using flight_host_onmessage[of py _ "wrk s"]
    by (auto simp: in_flight_def split: list.splits)
next
  case ToEngine
  then show ?thesis
    using flight_onmessage[of isCommand _ "eng s"]
    by (auto simp: in_flight_def split: list.splits)
next
  case (Handler pid out)
  then show ?thesis
    using flight_settle[of pid out "eng s"] by (simp add: in_flight_def)
next
  case (Loaded i failure)
  then show ?thesis
    using flight_initialise_then[of i failure "wrk s"] by (simp add: in_flight_def)
qed


lemma run_snoc: "run isCommand py s (evs @ [ev]) = step isCommand py (run isCommand py s evs) ev"
  by (simp add: run_def)

lemma run_Nil: "run isCommand py s [] = s"
  by (simp add: run_def)

lemma run_Cons: "run isCommand py s (ev # evs) = run isCommand py (step isCommand py s ev) evs"
  by (simp add: run_def)

lemma in_flight_run:
  "in_flight (run isCommand py s evs) \<le> in_flight s + length (filter (\<lambda>ev. ev = Start) evs)"
proof (induction evs rule: rev_induct)
  case Nil
  show ?case by (simp add: run_Nil)
next
  case (snoc ev evs)
  have "in_flight (run isCommand py s (evs @ [ev]))
          \<le> in_flight (run isCommand py s evs) + (if ev = Start then 1 else 0)"
    unfolding run_snoc by (rule in_flight_step)
  with snoc.IH show ?case by (cases "ev = Start") simp_all
qed

lemma in_flight_new_session: "in_flight (new_session sid) = 0"
  by (simp add: in_flight_def new_session_def engine_defs awaited_def)


subsection \<open>Logging and failing leave no other mark\<close>

lemma quiet_cases: "quiet a \<Longrightarrow> (\<exists>l args. a = Log l args) \<or> (\<exists>x. a = Uncaught x) \<or> (\<exists>x. a = Unhandled x)"
  by (cases a) simp_all

lemma quiet_filter:
  assumes "list_all quiet logs" and "\<And>a. quiet a \<Longrightarrow> \<not> P a"
  shows "filter P logs = []"
  using assms by (induction logs) simp_all

lemma quiet_posts_next [simp]: "list_all quiet logs \<Longrightarrow> filter posts_next logs = []"
  by (rule quiet_filter) (auto dest: quiet_cases)

lemma quiet_takes_command [simp]: "list_all quiet logs \<Longrightarrow> filter takes_command logs = []"
  by (rule quiet_filter) (auto dest: quiet_cases)

lemma quiet_handshake [simp]: "list_all quiet logs \<Longrightarrow> filter handshake logs = []"
  by (rule quiet_filter) (auto dest: quiet_cases)

lemma quiet_posted [simp]: "list_all quiet logs \<Longrightarrow> filter posted logs = []"
  by (rule quiet_filter) (auto dest: quiet_cases)

lemma quiet_justified [simp]: "list_all quiet logs \<Longrightarrow> justified (logs @ rest) = justified rest"
  by (induction logs) (auto dest: quiet_cases)

lemma has_eventType_obj [simp]:
  "has_eventType t (JObj ((''eventType'', JStr u) # kvs)) = (t = u)"
  by (auto simp: has_eventType_def)

lemma has_type_obj [simp]:
  "has_type t (JObj ((''__type__'', JStr u) # kvs)) = (t = u)"
  by (auto simp: has_type_def)

subsection \<open>Every \<^verbatim>\<open>nextRunCycle\<close> answers the promise of the current Command\<close>

lemma quiet_dispatches [simp]: "list_all quiet logs \<Longrightarrow> filter dispatches logs = []"
  by (rule quiet_filter) (auto dest: quiet_cases)

lemma quiet_settles [simp]: "list_all quiet logs \<Longrightarrow> \<not> list_ex (settles pid) logs"
  by (induction logs) (auto dest: quiet_cases)

lemma quiet_current [simp]: "list_all quiet logs \<Longrightarrow> current (logs @ rest) = current rest"
  by (induction logs) (auto dest: quiet_cases)

lemma length_filter_rev [simp]: "length (filter P (rev xs)) = length (filter P xs)"
  by (simp flip: rev_filter)

lemma tracked_worker: "tracked (e\<lparr>worker := ms\<rparr>) = tracked e"
  by (simp add: tracked_def)

lemma awaited_pending:
  assumes "i < length ps" and "ps ! i = Some NextRunCycle"
  shows "0 < awaited ps"
  using awaited_settled[OF assms(1)] assms(2) by simp

lemma tracked_start: "tracked e \<Longrightarrow> tracked (start e)"
  by (auto simp: tracked_def start_effect)

lemma tracked_onmessage:
  assumes "tracked e" and "awaited (promises (onmessage isCommand data e)) \<le> 1"
  shows "tracked (onmessage isCommand data e)"
proof -
  from onmessage_effect[of isCommand data e]
  obtain logs where logs: "list_all quiet logs" "list_all quiet (rev logs)"
    and eff: "onmessage isCommand data e = e\<lparr>etrace := etrace e @ Received data # logs\<rparr>
      \<or> (\<exists>command. onmessage isCommand data e =
            e\<lparr>promises := promises e @ [Some NextRunCycle],
              etrace := etrace e @ Received data # logs @ [Dispatch command NextRunCycle]\<rparr>)
      \<or> onmessage isCommand data e =
            e\<lparr>worker := worker e @
                 [JObj [(''eventType'', JStr ''firstRunCycle''), (''sessionId'', JStr (sessionId e))]],
              resolveInitialized := Some True,
              promises := promises e @ [Some Noop],
              etrace := etrace e @ Received data # logs @
                 [Dispatch (JObj [(''__type__'', JStr ''CommandSystemEvent''),
                                  (''name'', JStr ''initialized'')]) Noop,
                  Post (JObj [(''eventType'', JStr ''firstRunCycle''),
                              (''sessionId'', JStr (sessionId e))])]\<rparr>"
    by auto
  from eff show ?thesis
  proof (elim disjE exE)
    assume "onmessage isCommand data e = e\<lparr>etrace := etrace e @ Received data # logs\<rparr>"
    with assms(1) logs show ?thesis by (auto simp: tracked_def)
  next
    fix command
    assume eq: "onmessage isCommand data e =
            e\<lparr>promises := promises e @ [Some NextRunCycle],
              etrace := etrace e @ Received data # logs @ [Dispatch command NextRunCycle]\<rparr>"
    with assms(2) have "awaited (promises e) = 0" by simp
    then have none: "\<And>i. i < length (promises e) \<Longrightarrow> promises e ! i \<noteq> Some NextRunCycle"
      using awaited_pending by fastforce
    from assms(1) logs none show ?thesis
      unfolding eq tracked_def by (auto simp: nth_append less_Suc_eq)
  next
    assume eq: "onmessage isCommand data e =
            e\<lparr>worker := worker e @
                 [JObj [(''eventType'', JStr ''firstRunCycle''), (''sessionId'', JStr (sessionId e))]],
              resolveInitialized := Some True,
              promises := promises e @ [Some Noop],
              etrace := etrace e @ Received data # logs @
                 [Dispatch (JObj [(''__type__'', JStr ''CommandSystemEvent''),
                                  (''name'', JStr ''initialized'')]) Noop,
                  Post (JObj [(''eventType'', JStr ''firstRunCycle''),
                              (''sessionId'', JStr (sessionId e))])]\<rparr>"
    from assms(1) logs show ?thesis
      unfolding eq tracked_def by (auto simp: nth_append less_Suc_eq)
  qed
qed

lemma tracked_settle:
  assumes "tracked e"
  shows "tracked (settle pid out e)"
  using settle_effect[of pid out e]
proof (elim disjE exE conjE)
  assume "settle pid out e = e"
  with assms show ?thesis by simp
next
  assume pid: "pid < length (promises e)"
    and eq: "settle pid out e =
      e\<lparr>promises := (promises e)[pid := None], etrace := etrace e @ [Settled pid out]\<rparr>"
  from assms pid show ?thesis
    unfolding eq tracked_def by (auto simp: nth_list_update)
next
  fix response
  assume pid: "pid < length (promises e)"
    and eq: "settle pid out e =
      e\<lparr>worker := worker e @
           [JObj [(''eventType'', JStr ''nextRunCycle''), (''response'', response)]],
        promises := (promises e)[pid := None],
        etrace := etrace e @
           [Settled pid out, Log ''next cycle'' [],
            Post (JObj [(''eventType'', JStr ''nextRunCycle''), (''response'', response)])]\<rparr>"
  from assms pid show ?thesis
    unfolding eq tracked_def by (auto simp: nth_list_update)
qed

lemma justified_start: "justified (rev (etrace e)) \<Longrightarrow> justified (rev (etrace (start e)))"
  by (simp add: start_effect)

lemma justified_onmessage:
  "justified (rev (etrace e)) \<Longrightarrow> justified (rev (etrace (onmessage isCommand data e)))"
  using onmessage_effect[of isCommand data e]
  by (elim exE conjE disjE) (simp_all add: list_all_rev)

lemma justified_settle:
  assumes "tracked e" and "justified (rev (etrace e))"
  shows "justified (rev (etrace (settle pid out e)))"
  using settle_effect[of pid out e]
proof (elim disjE exE conjE)
  assume "settle pid out e = e"
  with assms show ?thesis by simp
next
  assume "settle pid out e =
      e\<lparr>promises := (promises e)[pid := None], etrace := etrace e @ [Settled pid out]\<rparr>"
  with assms show ?thesis by simp
next
  fix response
  assume out: "out = Fulfilled response" and pid: "pid < length (promises e)"
    and cb: "promises e ! pid = Some NextRunCycle"
    and eq: "settle pid out e =
      e\<lparr>worker := worker e @
           [JObj [(''eventType'', JStr ''nextRunCycle''), (''response'', response)]],
        promises := (promises e)[pid := None],
        etrace := etrace e @
           [Settled pid out, Log ''next cycle'' [],
            Post (JObj [(''eventType'', JStr ''nextRunCycle''), (''response'', response)])]\<rparr>"
  from assms(1) pid cb have "current (rev (etrace e)) = Some pid" "\<not> list_ex (settles pid) (etrace e)"
    by (simp_all add: tracked_def)
  with assms(2) out show ?thesis
    unfolding eq by simp
qed

lemma answered_step:
  assumes "tracked (eng s)" and "justified (rev (etrace (eng s)))"
    and "awaited (promises (eng (step isCommand py s ev))) \<le> 1"
  shows "tracked (eng (step isCommand py s ev))
     \<and> justified (rev (etrace (eng (step isCommand py s ev))))"
proof (cases ev)
  case Start
  with assms show ?thesis by (simp add: tracked_start justified_start)
next
  case ToWorker
  with assms show ?thesis by (simp add: tracked_worker split: list.splits)
next
  case ToEngine
  with assms show ?thesis
    by (auto simp: tracked_onmessage justified_onmessage split: list.splits)
next
  case (Handler pid out)
  with assms show ?thesis by (simp add: tracked_settle justified_settle)
next
  case (Loaded i failure)
  with assms show ?thesis by simp
qed

lemma answered_new_session:
  "tracked (eng (new_session sid)) \<and> justified (rev (etrace (eng (new_session sid))))"
  by (simp add: tracked_def new_session_def engine_defs)

lemma answered_run:
  assumes "length (filter (\<lambda>ev. ev = Start) evs) \<le> 1"
  shows "tracked (eng (run isCommand py (new_session sid) evs))
     \<and> justified (rev (etrace (eng (run isCommand py (new_session sid) evs))))"
  using assms
proof (induction evs rule: rev_induct)
  case Nil
  show ?case by (simp add: run_Nil answered_new_session)
next
  case (snoc ev evs)
  from snoc.prems have "length (filter (\<lambda>ev. ev = Start) evs) \<le> 1"
    by (simp split: if_splits)
  with snoc.IH have ih: "tracked (eng (run isCommand py (new_session sid) evs))"
    "justified (rev (etrace (eng (run isCommand py (new_session sid) evs))))"
    by simp_all
  have "in_flight (run isCommand py (new_session sid) (evs @ [ev])) \<le> 1"
    using in_flight_run[of isCommand py "new_session sid" "evs @ [ev]"] snoc.prems
    by (simp add: in_flight_new_session)
  then have "awaited (promises (eng (step isCommand py (run isCommand py (new_session sid) evs) ev))) \<le> 1"
    by (simp add: in_flight_def run_snoc)
  from answered_step[OF ih this] show ?case by (simp add: run_snoc)
qed

subsection \<open>No more \<^verbatim>\<open>nextRunCycle\<close> messages than Commands taken\<close>

lemma owed_start: "owed e \<Longrightarrow> owed (start e)"
  by (simp add: owed_def start_effect)

lemma owed_onmessage: "owed e \<Longrightarrow> owed (onmessage isCommand data e)"
  using onmessage_effect[of isCommand data e]
  by (elim exE conjE disjE) (simp_all add: owed_def)

lemma owed_settle: "owed e \<Longrightarrow> owed (settle pid out e)"
proof -
  assume o: "owed e"
  from settle_effect[of pid out e] show "owed (settle pid out e)"
  proof (elim exE conjE disjE)
    assume "settle pid out e = e"
    with o show ?thesis by simp
  next
    assume "pid < length (promises e)"
      and "settle pid out e =
            e\<lparr>promises := (promises e)[pid := None], etrace := etrace e @ [Settled pid out]\<rparr>"
    with o awaited_settled[of pid "promises e"] show ?thesis
      by (simp add: owed_def split: if_splits)
  next
    fix response
    assume "pid < length (promises e)" and "promises e ! pid = Some NextRunCycle"
      and "settle pid out e =
            e\<lparr>worker := worker e @
                 [JObj [(''eventType'', JStr ''nextRunCycle''), (''response'', response)]],
              promises := (promises e)[pid := None],
              etrace := etrace e @
                 [Settled pid out, Log ''next cycle'' [],
                  Post (JObj [(''eventType'', JStr ''nextRunCycle''), (''response'', response)])]\<rparr>"
    with o awaited_settled[of pid "promises e"] show ?thesis
      by (simp add: owed_def)
  qed
qed

lemma owed_worker: "owed (e\<lparr>worker := ms\<rparr>) = owed e"
  by (simp add: owed_def)

lemma owed_step: "owed (eng s) \<Longrightarrow> owed (eng (step isCommand py s ev))"
  by (cases ev) (auto simp: owed_start owed_onmessage owed_settle owed_worker split: list.splits)

lemma owed_run: "owed (eng s) \<Longrightarrow> owed (eng (run isCommand py s evs))"
  by (induction evs rule: rev_induct) (simp_all add: run_Nil run_snoc owed_step)

lemma owed_new_session: "owed (eng (new_session sid))"
  by (simp add: owed_def new_session_def engine_defs awaited_def)


subsection \<open>What one reaction of the worker does to the channel\<close>

lemma runCycle_channel:
  "loading (runCycle py payload w) = loading w \<and>
   (\<exists>ev. outbox (runCycle py payload w) = outbox w @ [runCycleDone ev])"
proof (cases "pyScript w")
  case None
  then show ?thesis by (auto simp: host_defs Let_def)
next
  case (Some g)
  obtain r g' where "send py g payload = (r, g')" by (cases "send py g payload")
  with Some show ?thesis by (cases r) (auto simp: host_defs Let_def)
qed

lemma host_onmessage_channel:
  "has_eventType ''initialise'' data \<and> outbox (host_onmessage py data w) = outbox w
     \<and> (loading (host_onmessage py data w) = loading w
          \<or> loading (host_onmessage py data w) = loading w @ [LoadingPyodide])
   \<or> \<not> has_eventType ''initialise'' data \<and> loading (host_onmessage py data w) = loading w
     \<and> (outbox (host_onmessage py data w) = outbox w
          \<or> (\<exists>ev. outbox (host_onmessage py data w) = outbox w @ [runCycleDone ev]))"
proof (cases "get data ''eventType''")
  case (Inl x)
  then show ?thesis by (simp add: host_onmessage_def has_eventType_def)
next
  case (Inr t)
  let ?w0 = "w\<lparr>wtrace := wtrace w @ [Received data]\<rparr>"
  consider (init) "t = JStr ''initialise''" | (first) "t = JStr ''firstRunCycle''"
    | (nxt) "t = JStr ''nextRunCycle''"
    | (other) "t \<noteq> JStr ''initialise''" "t \<noteq> JStr ''firstRunCycle''" "t \<noteq> JStr ''nextRunCycle''"
    by blast
  then show ?thesis
  proof cases
    case init
    with Inr show ?thesis
      by (cases "importScripts py")
         (simp_all add: host_onmessage_def initialise_def Let_def wlog_def has_eventType_def)
  next
    case first
    have n: "\<not> has_eventType ''initialise'' data"
      using Inr first by (simp add: has_eventType_def)
    from get_total[OF Inr] obtain sid where sid: "get data ''sessionId'' = Inr sid" by blast
    show ?thesis
    proof (cases "pyodide w")
      case None
      with Inr first n show ?thesis by (simp add: host_onmessage_def)
    next
      case (Some fs)
      show ?thesis
      proof (cases "runPython py (''port.start('' @ to_string sid @ '')'')")
        case (Inl x)
        with Inr first n Some sid show ?thesis by (simp add: host_onmessage_def)
      next
        case (Inr g)
        have "host_onmessage py data w = runCycle py JNull (?w0\<lparr>pyScript := Some g\<rparr>)"
          using \<open>get data ''eventType'' = Inr t\<close> first Some sid Inr
          by (simp add: host_onmessage_def)
        with n runCycle_channel[of py JNull "?w0\<lparr>pyScript := Some g\<rparr>"] show ?thesis
          by simp
      qed
    qed
  next
    case nxt
    have n: "\<not> has_eventType ''initialise'' data"
      using Inr nxt by (simp add: has_eventType_def)
    from get_total[OF Inr] obtain response where r: "get data ''response'' = Inr response" by blast
    obtain c w1 where u: "unwrap response ?w0 = (c, w1)" by (cases "unwrap response ?w0")
    from flight_unwrap[OF u] have same: "loading w1 = loading w" "outbox w1 = outbox w" by simp_all
    show ?thesis
    proof (cases c)
      case (Threw x)
      with Inr nxt n r u same show ?thesis by (simp add: host_onmessage_def)
    next
      case (Rejects x)
      with Inr nxt n r u same show ?thesis by (simp add: host_onmessage_def)
    next
      case (Resolves userInput)
      with Inr nxt r u have "host_onmessage py data w = runCycle py userInput w1"
        by (simp add: host_onmessage_def)
      with n same runCycle_channel[of py userInput w1] show ?thesis by simp
    qed
  next
    case other
    with Inr show ?thesis by (simp add: host_onmessage_def wlog_def has_eventType_def)
  qed
qed

lemma initialise_then_channel:
  "initialise_then i failure w = w
   \<or> length (loading (initialise_then i failure w)) = length (loading w)
       \<and> outbox (initialise_then i failure w) = outbox w
   \<or> Suc (length (loading (initialise_then i failure w))) = length (loading w)
       \<and> (outbox (initialise_then i failure w) = outbox w
            \<or> outbox (initialise_then i failure w) =
                outbox w @ [JObj [(''eventType'', JStr ''initialiseDone'')]])"
proof (cases "i < length (loading w)")
  case False
  then show ?thesis by (simp add: initialise_then_def)
next
  case True
  then have rest: "Suc (length (take i (loading w) @ drop (Suc i) (loading w))) = length (loading w)"
    by simp
  show ?thesis
  proof (cases failure)
    case (Some x)
    with True rest show ?thesis by (simp add: initialise_then_def Let_def)
  next
    case None
    with True rest show ?thesis
      by (cases "loading w ! i") (simp_all add: initialise_then_def Let_def host_defs)
  qed
qed


subsection \<open>The phases of the handshake\<close>

lemma awaited_none:
  assumes "awaited ps = 0" and "pid < length ps"
  shows "ps ! pid \<noteq> Some NextRunCycle" and "awaited (ps[pid := None]) = 0"
  using awaited_settled[OF assms(2)] assms(1) by (simp_all split: if_splits)

lemma settle_idle:
  assumes "awaited (promises e) = 0"
  shows "settle pid out e = e
     \<or> settle pid out e =
          e\<lparr>promises := (promises e)[pid := None], etrace := etrace e @ [Settled pid out]\<rparr>
        \<and> awaited ((promises e)[pid := None]) = 0"
  using settle_effect[of pid out e] awaited_none[OF assms, of pid] by blast

lemma initialise_then_idle: "loading w = [] \<Longrightarrow> initialise_then i failure w = w"
  by (simp add: initialise_then_def)

lemma before_start_step:
  assumes "before_start sid s" and "ev \<noteq> Start"
  shows "before_start sid (step isCommand py s ev)"
proof (cases ev)
  case Start
  with assms show ?thesis by simp
next
  case ToWorker
  with assms show ?thesis by (simp add: before_start_def)
next
  case ToEngine
  with assms show ?thesis by (simp add: before_start_def)
next
  case (Handler pid out)
  from assms have "awaited (promises (eng s)) = 0" by (simp add: before_start_def)
  from settle_idle[OF this, of pid out] Handler assms show ?thesis
    by (elim disjE conjE) (simp_all add: before_start_def)
next
  case (Loaded i failure)
  with assms show ?thesis by (simp add: before_start_def initialise_then_idle)
qed

lemma before_start_Start:
  assumes "before_start sid s"
  shows "initialising sid (step isCommand py s Start)"
  using assms by (simp add: before_start_def initialising_def start_effect)

lemma initialising_step:
  assumes "initialising sid s" and "ev \<noteq> Start"
  shows "initialising sid (step isCommand py s ev) \<or> cycling sid (step isCommand py s ev)"
proof (cases ev)
  case Start
  with assms show ?thesis by simp
next
  case ToWorker
  show ?thesis
  proof (cases "worker (eng s)")
    case Nil
    with ToWorker assms show ?thesis by simp
  next
    case (Cons m ms)
    with assms have m: "m = JObj [(''eventType'', JStr ''initialise'')]" "ms = []"
      and w: "loading (wrk s) = []" "outbox (wrk s) = []"
      by (auto simp: initialising_def)
    from host_onmessage_channel[of m py "wrk s"] m w
    have "outbox (host_onmessage py m (wrk s)) = []
        \<and> length (loading (host_onmessage py m (wrk s))) \<le> 1"
      by auto
    with ToWorker Cons m assms have "initialising sid (step isCommand py s ev)"
      by (simp add: initialising_def)
    then show ?thesis ..
  qed
next
  case ToEngine
  show ?thesis
  proof (cases "outbox (wrk s)")
    case Nil
    with ToEngine assms show ?thesis by simp
  next
    case (Cons m ms)
    with assms have m: "m = JObj [(''eventType'', JStr ''initialiseDone'')]" "ms = []"
      and w: "loading (wrk s) = []" "worker (eng s) = []"
      and e: "resolveInitialized (eng s) = Some False" "sessionId (eng s) = sid"
        "filter handshake (etrace (eng s)) = [Post (JObj [(''eventType'', JStr ''initialise'')])]"
      by (auto simp: initialising_def)
    from onmessage_effect[of isCommand m "eng s"] m e(1)
    obtain logs where logs: "list_all quiet logs"
      and eq: "onmessage isCommand m (eng s) =
                (eng s)\<lparr>worker := worker (eng s) @
                     [JObj [(''eventType'', JStr ''firstRunCycle''), (''sessionId'', JStr (sessionId (eng s)))]],
                  resolveInitialized := Some True,
                  promises := promises (eng s) @ [Some Noop],
                  etrace := etrace (eng s) @ Received m # logs @
                     [Dispatch (JObj [(''__type__'', JStr ''CommandSystemEvent''),
                                      (''name'', JStr ''initialized'')]) Noop,
                      Post (JObj [(''eventType'', JStr ''firstRunCycle''),
                                  (''sessionId'', JStr (sessionId (eng s)))])]\<rparr>"
      by auto
    from ToEngine Cons m w e logs eq have "cycling sid (step isCommand py s ev)"
      by (simp add: cycling_def completed_handshake_def)
    then show ?thesis ..
  qed
next
  case (Handler pid out)
  from assms have "awaited (promises (eng s)) = 0" by (simp add: initialising_def)
  from settle_idle[OF this, of pid out] Handler assms
  have "initialising sid (step isCommand py s ev)"
    by (elim disjE conjE) (simp_all add: initialising_def)
  then show ?thesis ..
next
  case (Loaded i failure)
  from assms consider
      (a) "loading (wrk s) = []"
    | (b) "worker (eng s) = []" "length (loading (wrk s)) \<le> 1" "outbox (wrk s) = []"
    by (auto simp: initialising_def)
  then have "initialising sid (step isCommand py s ev)"
  proof cases
    case a
    with Loaded assms show ?thesis by (simp add: initialise_then_idle)
  next
    case b
    have short: "Suc (length (loading (initialise_then i failure (wrk s)))) = length (loading (wrk s))
        \<Longrightarrow> loading (initialise_then i failure (wrk s)) = []"
      using b(2) by (cases "loading (initialise_then i failure (wrk s))") auto
    from initialise_then_channel[of i failure "wrk s"] b short
    have "outbox (initialise_then i failure (wrk s)) = []
            \<and> length (loading (initialise_then i failure (wrk s))) \<le> 1
        \<or> outbox (initialise_then i failure (wrk s)) = [JObj [(''eventType'', JStr ''initialiseDone'')]]
            \<and> loading (initialise_then i failure (wrk s)) = []"
      by (elim disjE conjE) auto
    with Loaded assms b show ?thesis
      by (auto simp: initialising_def)
  qed
  then show ?thesis ..
qed

lemma cycling_step:
  assumes "cycling sid s" and "ev \<noteq> Start"
  shows "cycling sid (step isCommand py s ev)"
proof (cases ev)
  case Start
  with assms show ?thesis by simp
next
  case ToWorker
  show ?thesis
  proof (cases "worker (eng s)")
    case Nil
    with ToWorker assms show ?thesis by simp
  next
    case (Cons m ms)
    with assms have m: "\<not> has_eventType ''initialise'' m"
      by (simp add: cycling_def)
    from host_onmessage_channel[of m py "wrk s"] m
    have "loading (host_onmessage py m (wrk s)) = loading (wrk s)"
      and "outbox (host_onmessage py m (wrk s)) = outbox (wrk s)
           \<or> (\<exists>ev. outbox (host_onmessage py m (wrk s)) = outbox (wrk s) @ [runCycleDone ev])"
      by auto
    with ToWorker Cons assms show ?thesis
      by (auto simp: cycling_def runCycleDone_def)
  qed
next
  case ToEngine
  show ?thesis
  proof (cases "outbox (wrk s)")
    case Nil
    with ToEngine assms show ?thesis by simp
  next
    case (Cons m ms)
    with assms have m: "\<not> has_eventType ''initialiseDone'' m"
      by (simp add: cycling_def)
    from onmessage_effect[of isCommand m "eng s"] m
    obtain logs where logs: "list_all quiet logs"
      and eq: "onmessage isCommand m (eng s) = (eng s)\<lparr>etrace := etrace (eng s) @ Received m # logs\<rparr>
        \<or> (\<exists>command. onmessage isCommand m (eng s) =
              (eng s)\<lparr>promises := promises (eng s) @ [Some NextRunCycle],
                etrace := etrace (eng s) @ Received m # logs @ [Dispatch command NextRunCycle]\<rparr>)"
      by auto
    from eq ToEngine Cons assms m logs show ?thesis
      by (elim disjE exE) (simp_all add: cycling_def)
  qed
next
  case (Handler pid out)
  from settle_effect[of pid out "eng s"] Handler assms show ?thesis
    by (elim disjE exE conjE) (simp_all add: cycling_def)
next
  case (Loaded i failure)
  with assms show ?thesis by (simp add: cycling_def initialise_then_idle)
qed

lemma before_start_new_session: "before_start sid (new_session sid)"
  by (simp add: before_start_def new_session_def engine_defs awaited_def)

lemma phases_run:
  assumes "length (filter (\<lambda>ev. ev = Start) evs) \<le> 1"
  shows "(if Start \<in> set evs
          then initialising sid (run isCommand py (new_session sid) evs)
               \<or> cycling sid (run isCommand py (new_session sid) evs)
          else before_start sid (run isCommand py (new_session sid) evs))"
  using assms
proof (induction evs rule: rev_induct)
  case Nil
  show ?case by (simp add: run_Nil before_start_new_session)
next
  case (snoc ev evs)
  let ?s = "run isCommand py (new_session sid) evs"
  show ?case
  proof (cases "ev = Start")
    case True
    with snoc.prems have "Start \<notin> set evs"
      by (auto simp: filter_empty_conv)
    with snoc have "before_start sid ?s" by simp
    from before_start_Start[OF this] True show ?thesis by (simp add: run_snoc)
  next
    case False
    with snoc have ih: "if Start \<in> set evs then initialising sid ?s \<or> cycling sid ?s
                        else before_start sid ?s"
      by simp
    show ?thesis
    proof (cases "Start \<in> set evs")
      case True
      with ih initialising_step[OF _ False, of sid ?s isCommand py] cycling_step[OF _ False, of sid ?s isCommand py]
      show ?thesis by (auto simp: run_snoc)
    next
      case no: False
      with ih before_start_step[OF _ False, of sid ?s isCommand py] False
      show ?thesis by (auto simp: run_snoc)
    qed
  qed
qed


lemma quiet_step:
  assumes "in_flight s = 0" and "ev \<noteq> Start"
  shows "in_flight (step isCommand py s ev) = 0
     \<and> filter posted (etrace (eng (step isCommand py s ev))) = filter posted (etrace (eng s))"
proof -
  from assms(1) have idle: "worker (eng s) = []" "loading (wrk s) = []" "outbox (wrk s) = []"
    "awaited (promises (eng s)) = 0"
    by (simp_all add: in_flight_def)
  from in_flight_step[of isCommand py s ev] assms have "in_flight (step isCommand py s ev) = 0"
    by simp
  moreover have "filter posted (etrace (eng (step isCommand py s ev))) = filter posted (etrace (eng s))"
  proof (cases ev)
    case (Handler pid out)
    from settle_idle[OF idle(4), of pid out] Handler show ?thesis by auto
  qed (use assms idle in \<open>simp_all add: initialise_then_idle\<close>)
  ultimately show ?thesis ..
qed

lemma quiet_run:
  assumes "in_flight s = 0" and "Start \<notin> set evs"
  shows "in_flight (run isCommand py s evs) = 0
     \<and> filter posted (etrace (eng (run isCommand py s evs))) = filter posted (etrace (eng s))"
  using assms(2)
proof (induction evs rule: rev_induct)
  case Nil
  with assms(1) show ?case by (simp add: run_Nil)
next
  case (snoc ev evs)
  then have ih: "in_flight (run isCommand py s evs) = 0"
    "filter posted (etrace (eng (run isCommand py s evs))) = filter posted (etrace (eng s))"
    and ev: "ev \<noteq> Start"
    by auto
  from quiet_step[OF ih(1) ev, of isCommand py] ih(2) show ?case
    by (simp add: run_snoc)
qed

lemma run_append:
  "run isCommand py s (evs @ later) = run isCommand py (run isCommand py s evs) later"
  by (simp add: run_def)

lemma onmessage_unrecognized:
  assumes "get data ''eventType'' = Inr (JStr ''runCycleDone'')"
    and "get data ''scriptEvent'' = Inr c"
    and "\<not> isCommand c"
  shows "onmessage isCommand data e =
     e\<lparr>etrace := etrace e @
        [Received data,
         Log ''[WorkerProcessingEngine] Received event from worker: '' [JStr ''runCycleDone''],
         Log ''[ReactEngine] received eventType: '' [JStr ''runCycleDone''],
         Log ''[ReactEngine] received: event'' [c]]\<rparr>"
  using assms by (simp add: onmessage_def handleEvent_def engine_defs Let_def)

lemma stalled_after_unrecognized:
  assumes one: "length (filter (\<lambda>ev. ev = Start) evs) \<le> 1"
    and box: "outbox (wrk (run isCommand py (new_session sid) evs)) = data # ms"
    and data: "get data ''eventType'' = Inr (JStr ''runCycleDone'')"
      "get data ''scriptEvent'' = Inr c" "\<not> isCommand c"
    and later: "Start \<notin> set later"
  shows "in_flight (run isCommand py (new_session sid) (evs @ ToEngine # later)) = 0
     \<and> filter posted (etrace (eng (run isCommand py (new_session sid) (evs @ ToEngine # later)))) =
        filter posted (etrace (eng (run isCommand py (new_session sid) evs)))"
proof -
  let ?s = "run isCommand py (new_session sid) evs"
  let ?s' = "step isCommand py ?s ToEngine"
  have "in_flight ?s \<le> 1"
    using in_flight_run[of isCommand py "new_session sid" evs] one
    by (simp add: in_flight_new_session)
  with box have idle: "worker (eng ?s) = []" "loading (wrk ?s) = []" "ms = []"
    "awaited (promises (eng ?s)) = 0"
    by (simp_all add: in_flight_def)
  have s': "in_flight ?s' = 0"
    "filter posted (etrace (eng ?s')) = filter posted (etrace (eng ?s))"
    using box idle
    by (simp_all add: in_flight_def onmessage_unrecognized[of data c isCommand, OF data])
  have "run isCommand py (new_session sid) (evs @ ToEngine # later) = run isCommand py ?s' later"
    by (simp add: run_append run_Cons)
  with quiet_run[OF s'(1) later, of isCommand py] s'(2) show ?thesis by simp
qed

lemma handshake_completes:
  assumes "importScripts py = None"
  shows "filter handshake (etrace (eng (run isCommand py (new_session sid)
           [Start, ToWorker, Loaded 0 None, Loaded 0 None, Loaded 0 None, ToEngine]))) =
         completed_handshake sid"
  using assms
  by (simp add: run_def new_session_def engine_defs host_onmessage_def initialise_def
        initialise_then_def host_defs onmessage_def handleEvent_def Let_def completed_handshake_def)


lemma onmessage_initialiseDone:
  assumes "resolveInitialized e = Some False"
  shows "onmessage isCommand (JObj [(''eventType'', JStr ''initialiseDone'')]) e =
     e\<lparr>worker := worker e @
          [JObj [(''eventType'', JStr ''firstRunCycle''), (''sessionId'', JStr (sessionId e))]],
       resolveInitialized := Some True,
       promises := promises e @ [Some Noop],
       etrace := etrace e @
          [Received (JObj [(''eventType'', JStr ''initialiseDone'')]),
           Log ''[WorkerProcessingEngine] Received event from worker: '' [JStr ''initialiseDone''],
           Log ''[ReactEngine] received eventType: '' [JStr ''initialiseDone''],
           Log ''[ReactEngine] received: initialiseDone'' [],
           Dispatch (JObj [(''__type__'', JStr ''CommandSystemEvent''),
                           (''name'', JStr ''initialized'')]) Noop,
           Post (JObj [(''eventType'', JStr ''firstRunCycle''),
                       (''sessionId'', JStr (sessionId e))])]\<rparr>"
  using assms by (simp add: onmessage_def handleEvent_def engine_defs Let_def)

lemma settle_last_Noop:
  assumes "promises e' = ps @ [Some Noop]"
  shows "settle (length ps) out e' =
           e'\<lparr>promises := ps @ [None], etrace := etrace e' @ [Settled (length ps) out]\<rparr>"
  using assms by (cases out) (simp_all add: settle_def Let_def)


subsection \<open>The worker's reactions to the two run-cycle messages\<close>

lemma host_onmessage_firstRunCycle:
  assumes "pyodide w = Some fs"
  shows "(runPython py (''port.start('' @ sid @ '')'') = Inr g \<and> send py g JNull = (r, g') \<longrightarrow>
      host_onmessage py (JObj [(''eventType'', JStr ''firstRunCycle''), (''sessionId'', JStr sid)]) w =
        w\<lparr>pyScript := Some g',
          outbox := outbox w @
            [JObj [(''eventType'', JStr ''runCycleDone''),
                   (''scriptEvent'',
                    case r of Inr scriptEvent \<Rightarrow> scriptEvent
                            | Inl error \<Rightarrow> generateErrorMessage (exn_toString error))]],
          wtrace := wtrace w @
            [Received (JObj [(''eventType'', JStr ''firstRunCycle''), (''sessionId'', JStr sid)]),
             Log ''[ProcessingWorker] runCycle null'' [],
             Post (JObj [(''eventType'', JStr ''runCycleDone''),
                   (''scriptEvent'',
                    case r of Inr scriptEvent \<Rightarrow> scriptEvent
                            | Inl error \<Rightarrow> generateErrorMessage (exn_toString error))])]\<rparr>)
     \<and> (runPython py (''port.start('' @ sid @ '')'') = Inl x \<longrightarrow>
      host_onmessage py (JObj [(''eventType'', JStr ''firstRunCycle''), (''sessionId'', JStr sid)]) w =
        w\<lparr>wtrace := wtrace w @
            [Received (JObj [(''eventType'', JStr ''firstRunCycle''), (''sessionId'', JStr sid)]),
             Uncaught x]\<rparr>)"
  using assms
  by (cases r)
     (simp_all add: host_onmessage_def host_defs Let_def JSON_stringify_def runCycleDone_def)




section \<open>The claims\<close>

text \<open>
  C9.  Constructing the engine calls the Command Handler once, with a
  \<^verbatim>\<open>CommandSystemDonate\<close> whose key is the session id followed by \<^verbatim>\<open>-tracking\<close> and whose
  \<^verbatim>\<open>json_string\<close> is the JSON text of \<^verbatim>\<open>{message: "user started"}\<close>.  Nothing is posted to the
  worker and \<^verbatim>\<open>start\<close> has not run; whatever the session does later comes after this call
  in the engine's history.  When the promise settles, either way, the engine only notes it.
\<close>

theorem constructor_tracks_user_start:
  \<open>etrace (constructor sid) =
      [Dispatch (JObj [(''__type__'', JStr ''CommandSystemDonate''),
                       (''key'', JStr (sid @ ''-tracking'')),
                       (''json_string'', JStr ''{"message":"user started"}'')]) Noop]
   \<and> JSON_stringify (JObj [(''message'', JStr ''user started'')]) = JStr ''{"message":"user started"}''
   \<and> worker (constructor sid) = [] \<and> resolveInitialized (constructor sid) = None
   \<and> promises (constructor sid) = [Some Noop]
   \<and> settle 0 out (constructor sid) =
        (constructor sid)\<lparr>promises := [None], etrace := etrace (constructor sid) @ [Settled 0 out]\<rparr>
   \<and> prefix (etrace (constructor sid)) (etrace (eng (run isCommand py (new_session sid) evs)))\<close>
proof -
  have "prefix (etrace (eng (new_session sid :: 'a session)))
          (etrace (eng (run isCommand py (new_session sid) evs)))"
    by (rule etrace_run)
  then have "prefix (etrace (constructor sid)) (etrace (eng (run isCommand py (new_session sid) evs)))"
    by (simp add: new_session_def)
  moreover have "settle 0 out (constructor sid) =
        (constructor sid)\<lparr>promises := [None], etrace := etrace (constructor sid) @ [Settled 0 out]\<rparr>"
    by (cases out) (simp_all add: engine_defs settle_def Let_def)
  ultimately show ?thesis
    by (simp add: engine_defs JSON_stringify_def json_quote_def json_escape_def)
qed

theorem constructor_tracks_user_start_witness:
  \<open>etrace (eng (run isCommand_by_tag example_script (new_session ''1700000000000'') [Start])) =
      [Dispatch (JObj [(''__type__'', JStr ''CommandSystemDonate''),
                       (''key'', JStr ''1700000000000-tracking''),
                       (''json_string'', JStr ''{"message":"user started"}'')]) Noop,
       Log ''[WorkerProcessingEngine] started'' [],
       Post (JObj [(''eventType'', JStr ''initialise'')])]
   \<and> prefix (etrace (constructor ''1700000000000''))
        (etrace (eng (run isCommand_by_tag example_script (new_session ''1700000000000'') [Start])))\<close>
  using constructor_tracks_user_start[of "''1700000000000''" "Fulfilled JNull" isCommand_by_tag
      example_script "[Start]"]
  by (simp add: run_def new_session_def start_effect)

text \<open>
  C6.  A \<^verbatim>\<open>runCycleDone\<close> event with a recognized Command makes the engine call the Command
  Handler with that Command and post nothing.  When the handler's promise is fulfilled, the
  engine posts one \<^verbatim>\<open>nextRunCycle\<close> message carrying the response.  When it is rejected, the
  engine posts nothing, calls the handler no further and throws nothing.
\<close>

theorem recognized_command_is_answered:
  assumes "isCommand command"
  shows "onmessage isCommand (runCycleDone command) e =
       e\<lparr>promises := promises e @ [Some NextRunCycle],
         etrace := etrace e @
          [Received (runCycleDone command),
           Log ''[WorkerProcessingEngine] Received event from worker: '' [JStr ''runCycleDone''],
           Log ''[ReactEngine] received eventType: '' [JStr ''runCycleDone''],
           Log ''[ReactEngine] received: event'' [command],
           Dispatch command NextRunCycle]\<rparr>
   \<and> settle (length (promises e)) (Fulfilled response) (onmessage isCommand (runCycleDone command) e) =
       e\<lparr>worker := worker e @ [JObj [(''eventType'', JStr ''nextRunCycle''), (''response'', response)]],
         promises := promises e @ [None],
         etrace := etrace e @
          [Received (runCycleDone command),
           Log ''[WorkerProcessingEngine] Received event from worker: '' [JStr ''runCycleDone''],
           Log ''[ReactEngine] received eventType: '' [JStr ''runCycleDone''],
           Log ''[ReactEngine] received: event'' [command],
           Dispatch command NextRunCycle,
           Settled (length (promises e)) (Fulfilled response),
           Log ''next cycle'' [],
           Post (JObj [(''eventType'', JStr ''nextRunCycle''), (''response'', response)])]\<rparr>
   \<and> settle (length (promises e)) (Rejected reason) (onmessage isCommand (runCycleDone command) e) =
       e\<lparr>promises := promises e @ [None],
         etrace := etrace e @
          [Received (runCycleDone command),
           Log ''[WorkerProcessingEngine] Received event from worker: '' [JStr ''runCycleDone''],
           Log ''[ReactEngine] received eventType: '' [JStr ''runCycleDone''],
           Log ''[ReactEngine] received: event'' [command],
           Dispatch command NextRunCycle,
           Settled (length (promises e)) (Rejected reason)]\<rparr>"
  using assms
  by (simp add: onmessage_def handleEvent_def engine_defs Let_def runCycleDone_def settle_def)

theorem recognized_command_is_answered_witness:
  "isCommand_by_tag (JObj [(''__type__'', JStr ''CommandUIRender'')])
   \<and> worker (onmessage isCommand_by_tag (runCycleDone (JObj [(''__type__'', JStr ''CommandUIRender'')]))
        (constructor ''abc123'')) = []
   \<and> worker (settle (length (promises (constructor ''abc123'')))
        (Fulfilled (JObj [(''payload'', JObj [(''__type__'', JStr ''PayloadVoid'')])]))
        (onmessage isCommand_by_tag (runCycleDone (JObj [(''__type__'', JStr ''CommandUIRender'')]))
           (constructor ''abc123''))) =
       [JObj [(''eventType'', JStr ''nextRunCycle''),
              (''response'', JObj [(''payload'', JObj [(''__type__'', JStr ''PayloadVoid'')])])]]
   \<and> worker (settle (length (promises (constructor ''abc123''))) (Rejected (JStr ''no''))
        (onmessage isCommand_by_tag (runCycleDone (JObj [(''__type__'', JStr ''CommandUIRender'')]))
           (constructor ''abc123''))) = []"
proof -
  have h: "isCommand_by_tag (JObj [(''__type__'', JStr ''CommandUIRender'')])"
    by (simp add: isCommand_by_tag_def has_type_def)
  have w: "worker (constructor ''abc123'') = []"
    by (simp add: engine_defs)
  note t = recognized_command_is_answered[of isCommand_by_tag
        "JObj [(''__type__'', JStr ''CommandUIRender'')]" "constructor ''abc123''"
        "JObj [(''payload'', JObj [(''__type__'', JStr ''PayloadVoid'')])]" "JStr ''no''", OF h]
  have c1: "worker (onmessage isCommand_by_tag (runCycleDone (JObj [(''__type__'', JStr ''CommandUIRender'')]))
        (constructor ''abc123'')) = []"
    by (simp add: t[THEN conjunct1] w)
  have c2: "worker (settle (length (promises (constructor ''abc123'')))
        (Fulfilled (JObj [(''payload'', JObj [(''__type__'', JStr ''PayloadVoid'')])]))
        (onmessage isCommand_by_tag (runCycleDone (JObj [(''__type__'', JStr ''CommandUIRender'')]))
           (constructor ''abc123''))) =
       [JObj [(''eventType'', JStr ''nextRunCycle''),
              (''response'', JObj [(''payload'', JObj [(''__type__'', JStr ''PayloadVoid'')])])]]"
    by (simp add: t[THEN conjunct2, THEN conjunct1] w)
  have c3: "worker (settle (length (promises (constructor ''abc123''))) (Rejected (JStr ''no''))
        (onmessage isCommand_by_tag (runCycleDone (JObj [(''__type__'', JStr ''CommandUIRender'')]))
           (constructor ''abc123''))) = []"
    by (simp add: t[THEN conjunct2, THEN conjunct2] w)
  from h c1 c2 c3 show ?thesis by blast
qed

text \<open>
  C10.  A message whose \<^verbatim>\<open>eventType\<close> is none of the types a side knows is logged and
  otherwise ignored: the engine posts nothing, calls no handler and changes no field; the
  worker posts nothing, starts nothing and changes neither its script nor its runtime.
\<close>

theorem unknown_events_are_ignored:
  "(get data ''eventType'' = Inr t \<and> t \<noteq> JStr ''initialiseDone'' \<and> t \<noteq> JStr ''runCycleDone'' \<longrightarrow>
      onmessage isCommand data e =
        e\<lparr>etrace := etrace e @
          [Received data,
           Log ''[WorkerProcessingEngine] Received event from worker: '' [t],
           Log ''[ReactEngine] received eventType: '' [t],
           Log ''[ReactEngine] received unsupported flow event: '' [t]]\<rparr>)
   \<and> (get data ''eventType'' = Inr t \<and> t \<noteq> JStr ''initialise'' \<and> t \<noteq> JStr ''firstRunCycle''
        \<and> t \<noteq> JStr ''nextRunCycle'' \<longrightarrow>
      host_onmessage py data w =
        w\<lparr>wtrace := wtrace w @
          [Received data, Log ''[ProcessingWorker] Received unsupported event: '' [t]]\<rparr>)"
  by (simp add: onmessage_def handleEvent_def engine_defs Let_def host_onmessage_def host_defs)

theorem unknown_events_are_ignored_witness:
  "get (JObj [(''eventType'', JStr ''ping'')]) ''eventType'' = Inr (JStr ''ping'')
   \<and> onmessage isCommand_by_tag (JObj [(''eventType'', JStr ''ping'')]) (constructor ''abc123'') =
       (constructor ''abc123'')\<lparr>etrace := etrace (constructor ''abc123'') @
          [Received (JObj [(''eventType'', JStr ''ping'')]),
           Log ''[WorkerProcessingEngine] Received event from worker: '' [JStr ''ping''],
           Log ''[ReactEngine] received eventType: '' [JStr ''ping''],
           Log ''[ReactEngine] received unsupported flow event: '' [JStr ''ping'']]\<rparr>
   \<and> host_onmessage example_script (JObj [(''eventType'', JStr ''ping'')]) (wrk (new_session ''abc123'' :: nat session)) =
       (wrk (new_session ''abc123'' :: nat session))\<lparr>wtrace := wtrace (wrk (new_session ''abc123'' :: nat session)) @
          [Received (JObj [(''eventType'', JStr ''ping'')]),
           Log ''[ProcessingWorker] Received unsupported event: '' [JStr ''ping'']]\<rparr>"
  using unknown_events_are_ignored[of "JObj [(''eventType'', JStr ''ping'')]" "JStr ''ping''"
      isCommand_by_tag "constructor ''abc123''" example_script "wrk (new_session ''abc123'' :: nat session)"]
  by simp


text \<open>
  C5.  When advancing the script raises, \<^verbatim>\<open>runCycle\<close> catches the exception and posts one
  \<^verbatim>\<open>runCycleDone\<close> message whose \<^verbatim>\<open>scriptEvent\<close> is a \<^verbatim>\<open>CommandUIRender\<close> with a
  \<^verbatim>\<open>PropsUIPageError\<close> page carrying the text of the exception; nothing leaves the handler
  uncaught.  The same holds when there is no script to advance: the page then carries the
  text of the type error that the JavaScript engine throws for \<^verbatim>\<open>pyScript.send\<close>.
\<close>

theorem script_fault_becomes_error_page:
  "(pyScript w = Some g \<and> send py g payload = (Inl error, g') \<longrightarrow>
      runCycle py payload w =
        w\<lparr>pyScript := Some g',
          outbox := outbox w @
            [JObj [(''eventType'', JStr ''runCycleDone''),
                   (''scriptEvent'',
                    JObj [(''__type__'', JStr ''CommandUIRender''),
                          (''page'', JObj [(''__type__'', JStr ''PropsUIPageError''),
                                           (''stacktrace'', JStr (exn_toString error))])])]],
          wtrace := wtrace w @
            [Log (''[ProcessingWorker] runCycle '' @ to_string (JSON_stringify payload)) [],
             Post (runCycleDone (generateErrorMessage (exn_toString error)))]\<rparr>)
   \<and> (pyScript w = None \<longrightarrow>
      runCycle py payload w =
        w\<lparr>outbox := outbox w @
            [JObj [(''eventType'', JStr ''runCycleDone''),
                   (''scriptEvent'',
                    JObj [(''__type__'', JStr ''CommandUIRender''),
                          (''page'', JObj [(''__type__'', JStr ''PropsUIPageError''),
                                           (''stacktrace'',
                                            JStr (''TypeError: '' @ send_of_undefined py))])])]],
          wtrace := wtrace w @
            [Log (''[ProcessingWorker] runCycle '' @ to_string (JSON_stringify payload)) [],
             Post (runCycleDone (generateErrorMessage (''TypeError: '' @ send_of_undefined py)))]\<rparr>)"
  by (simp add: host_defs Let_def generateErrorMessage_def runCycleDone_def)

theorem script_fault_becomes_error_page_witness:
  "send example_script 3 JNull = (Inl (PythonError ''StopIteration''), 3)
   \<and> outbox (runCycle example_script JNull
        \<lparr>pyScript = Some 3, pyodide = Some [], loading = [], outbox = [], wtrace = []\<rparr>) =
       [JObj [(''eventType'', JStr ''runCycleDone''),
              (''scriptEvent'',
               JObj [(''__type__'', JStr ''CommandUIRender''),
                     (''page'', JObj [(''__type__'', JStr ''PropsUIPageError''),
                                      (''stacktrace'', JStr ''PythonError: StopIteration'')])])]]
   \<and> outbox (runCycle example_script JNull
        \<lparr>pyScript = None, pyodide = Some [], loading = [], outbox = [], wtrace = []\<rparr>) =
       [JObj [(''eventType'', JStr ''runCycleDone''),
              (''scriptEvent'',
               JObj [(''__type__'', JStr ''CommandUIRender''),
                     (''page'', JObj [(''__type__'', JStr ''PropsUIPageError''),
                                      (''stacktrace'',
                                       JStr (''TypeError: '' @ send_of_undefined example_script))])])]]"
proof -
  have h: "send example_script 3 JNull = (Inl (PythonError ''StopIteration''), 3)"
    by (simp add: example_script_def)
  have c1: "outbox (runCycle example_script JNull
        \<lparr>pyScript = Some 3, pyodide = Some [], loading = [], outbox = [], wtrace = []\<rparr>) =
       [JObj [(''eventType'', JStr ''runCycleDone''),
              (''scriptEvent'',
               JObj [(''__type__'', JStr ''CommandUIRender''),
                     (''page'', JObj [(''__type__'', JStr ''PropsUIPageError''),
                                      (''stacktrace'', JStr ''PythonError: StopIteration'')])])]]"
    using h script_fault_becomes_error_page[of
        "\<lparr>pyScript = Some 3, pyodide = Some [], loading = [], outbox = [], wtrace = []\<rparr>"
        3 example_script JNull "PythonError ''StopIteration''" 3]
    by simp
  have c2: "outbox (runCycle example_script JNull
        \<lparr>pyScript = None, pyodide = Some [], loading = [], outbox = [], wtrace = []\<rparr>) =
       [JObj [(''eventType'', JStr ''runCycleDone''),
              (''scriptEvent'',
               JObj [(''__type__'', JStr ''CommandUIRender''),
                     (''page'', JObj [(''__type__'', JStr ''PropsUIPageError''),
                                      (''stacktrace'',
                                       JStr (''TypeError: '' @ send_of_undefined example_script))])])]]"
    using script_fault_becomes_error_page[of
        "\<lparr>pyScript = None, pyodide = Some [], loading = [], outbox = [], wtrace = []\<rparr>"
        3 example_script JNull "PythonError ''StopIteration''" 3]
    by simp
  from h c1 c2 show ?thesis by blast
qed

text \<open>
  C7.  The engine's \<^verbatim>\<open>firstRunCycle\<close> posts the session id as it is, a string.  The worker
  pastes it unquoted into the Python source \<^verbatim>\<open>port.start(<session id>)\<close> and evaluates that
  outside any \<^verbatim>\<open>try\<close>.  For the session \<^verbatim>\<open>abc123\<close> the evaluation raises, since Python reads
  \<^verbatim>\<open>abc123\<close> as a name: the exception leaves the handler, no script is kept and no
  \<^verbatim>\<open>runCycleDone\<close> message is posted; in the session, the worker has then posted
  \<^verbatim>\<open>initialiseDone\<close> alone and nothing is under way any more.  For a session id that is a
  Python number the script is started, resumed with \<^verbatim>\<open>null\<close>, and its first Command
  reported in one \<^verbatim>\<open>runCycleDone\<close> message.
\<close>

theorem first_run_cycle_unquoted_session_id:
  \<open>worker (firstRunCycle (constructor ''abc123'')) =
     [JObj [(''eventType'', JStr ''firstRunCycle''), (''sessionId'', JStr ''abc123'')]]
   \<and> host_onmessage example_script
        (JObj [(''eventType'', JStr ''firstRunCycle''), (''sessionId'', JStr ''abc123'')])
        \<lparr>pyScript = None, pyodide = Some [], loading = [], outbox = [], wtrace = []\<rparr> =
       \<lparr>pyScript = None, pyodide = Some [], loading = [], outbox = [],
        wtrace = [Received (JObj [(''eventType'', JStr ''firstRunCycle''), (''sessionId'', JStr ''abc123'')]),
                  Uncaught (PythonError ''NameError: name 'abc123' is not defined'')]\<rparr>
   \<and> in_flight (run isCommand_by_tag example_script (new_session ''abc123'')
        [Start, ToWorker, Loaded 0 None, Loaded 0 None, Loaded 0 None, ToEngine, ToWorker]) = 0
   \<and> filter posted (wtrace (wrk (run isCommand_by_tag example_script (new_session ''abc123'')
        [Start, ToWorker, Loaded 0 None, Loaded 0 None, Loaded 0 None, ToEngine, ToWorker]))) =
       [Post (JObj [(''eventType'', JStr ''initialiseDone'')])]
   \<and> host_onmessage example_script
        (JObj [(''eventType'', JStr ''firstRunCycle''), (''sessionId'', JStr ''1700000000000'')])
        \<lparr>pyScript = None, pyodide = Some [], loading = [], outbox = [], wtrace = []\<rparr> =
       \<lparr>pyScript = Some 1, pyodide = Some [], loading = [],
        outbox = [JObj [(''eventType'', JStr ''runCycleDone''),
                        (''scriptEvent'',
                         JObj [(''__type__'', JStr ''CommandUIRender''),
                               (''page'', JObj [(''__type__'', JStr ''PropsUIPageDonation'')])])]],
        wtrace =
          [Received (JObj [(''eventType'', JStr ''firstRunCycle''), (''sessionId'', JStr ''1700000000000'')]),
           Log ''[ProcessingWorker] runCycle null'' [],
           Post (JObj [(''eventType'', JStr ''runCycleDone''),
                        (''scriptEvent'',
                         JObj [(''__type__'', JStr ''CommandUIRender''),
                               (''page'', JObj [(''__type__'', JStr ''PropsUIPageDonation'')])])])]\<rparr>\<close>
proof -
  let ?w = "\<lparr>pyScript = None :: nat option, pyodide = Some [], loading = [], outbox = [], wtrace = []\<rparr>"
  have loaded: "pyodide ?w = Some []"
    by simp
  have c1: "worker (firstRunCycle (constructor ''abc123'')) =
     [JObj [(''eventType'', JStr ''firstRunCycle''), (''sessionId'', JStr ''abc123'')]]"
    by (simp add: engine_defs)
  have raises: "runPython example_script (''port.start('' @ ''abc123'' @ '')'') =
      Inl (PythonError ''NameError: name 'abc123' is not defined'')"
    by (simp add: example_script_def)
  have c2: "host_onmessage example_script
        (JObj [(''eventType'', JStr ''firstRunCycle''), (''sessionId'', JStr ''abc123'')]) ?w =
       \<lparr>pyScript = None, pyodide = Some [], loading = [], outbox = [],
        wtrace = [Received (JObj [(''eventType'', JStr ''firstRunCycle''), (''sessionId'', JStr ''abc123'')]),
                  Uncaught (PythonError ''NameError: name 'abc123' is not defined'')]\<rparr>"
    using host_onmessage_firstRunCycle[OF loaded, of example_script "''abc123''"] raises
    by simp
  have c3: "in_flight (run isCommand_by_tag example_script (new_session ''abc123'')
        [Start, ToWorker, Loaded 0 None, Loaded 0 None, Loaded 0 None, ToEngine, ToWorker]) = 0"
    by code_simp
  have c4: "filter posted (wtrace (wrk (run isCommand_by_tag example_script (new_session ''abc123'')
        [Start, ToWorker, Loaded 0 None, Loaded 0 None, Loaded 0 None, ToEngine, ToWorker]))) =
       [Post (JObj [(''eventType'', JStr ''initialiseDone'')])]"
    by code_simp
  have starts: "runPython example_script (''port.start('' @ ''1700000000000'' @ '')'') = Inr 0"
    and yields: "send example_script 0 JNull =
      (Inr (JObj [(''__type__'', JStr ''CommandUIRender''),
                  (''page'', JObj [(''__type__'', JStr ''PropsUIPageDonation'')])]), 1)"
    by (simp_all add: example_script_def)
  have c5: "host_onmessage example_script
        (JObj [(''eventType'', JStr ''firstRunCycle''), (''sessionId'', JStr ''1700000000000'')]) ?w =
       \<lparr>pyScript = Some 1, pyodide = Some [], loading = [],
        outbox = [JObj [(''eventType'', JStr ''runCycleDone''),
                        (''scriptEvent'',
                         JObj [(''__type__'', JStr ''CommandUIRender''),
                               (''page'', JObj [(''__type__'', JStr ''PropsUIPageDonation'')])])]],
        wtrace =
          [Received (JObj [(''eventType'', JStr ''firstRunCycle''), (''sessionId'', JStr ''1700000000000'')]),
           Log ''[ProcessingWorker] runCycle null'' [],
           Post (JObj [(''eventType'', JStr ''runCycleDone''),
                        (''scriptEvent'',
                         JObj [(''__type__'', JStr ''CommandUIRender''),
                               (''page'', JObj [(''__type__'', JStr ''PropsUIPageDonation'')])])])]\<rparr>"
    using host_onmessage_firstRunCycle[OF loaded, of example_script "''1700000000000''"] starts yields
    by simp
  from c1 c2 c3 c4 c5 show ?thesis by blast
qed

text \<open>
  C8.  \<^verbatim>\<open>renderBody\<close> tries the five type guards in the order file input, confirm, consent
  form, radio input, questionnaire, and renders the component of the first guard that
  accepts the body.  It throws \<^verbatim>\<open>TypeError('Unknown body type')\<close> exactly when no guard
  accepts the body.
\<close>

theorem renderBody_discriminates:
  assumes "get props ''body'' = Inr body" and "get props ''resolve'' = Inr resolve"
  shows "(isPropsUIPromptFileInput gs body \<longrightarrow>
          renderBody gs locale props =
            Inr (FileInput body (JObj [(''locale'', locale), (''resolve'', resolve)])))
     \<and> (\<not> isPropsUIPromptFileInput gs body \<and> isPropsUIPromptConfirm gs body \<longrightarrow>
          renderBody gs locale props =
            Inr (Confirm body (JObj [(''locale'', locale), (''resolve'', resolve)])))
     \<and> (\<not> isPropsUIPromptFileInput gs body \<and> \<not> isPropsUIPromptConfirm gs body
          \<and> isPropsUIPromptConsentForm gs body \<longrightarrow>
          renderBody gs locale props =
            Inr (ConsentForm body (JObj [(''locale'', locale), (''resolve'', resolve)])))
     \<and> (\<not> isPropsUIPromptFileInput gs body \<and> \<not> isPropsUIPromptConfirm gs body
          \<and> \<not> isPropsUIPromptConsentForm gs body \<and> isPropsUIPromptRadioInput gs body \<longrightarrow>
          renderBody gs locale props =
            Inr (RadioInput body (JObj [(''locale'', locale), (''resolve'', resolve)])))
     \<and> (\<not> isPropsUIPromptFileInput gs body \<and> \<not> isPropsUIPromptConfirm gs body
          \<and> \<not> isPropsUIPromptConsentForm gs body \<and> \<not> isPropsUIPromptRadioInput gs body
          \<and> isPropsUIPromptQuestionnaire gs body \<longrightarrow>
          renderBody gs locale props =
            Inr (Questionnaire body (JObj [(''locale'', locale), (''resolve'', resolve)])))
     \<and> (renderBody gs locale props = Inl (TypeError ''Unknown body type'') \<longleftrightarrow>
          \<not> isPropsUIPromptFileInput gs body \<and> \<not> isPropsUIPromptConfirm gs body
          \<and> \<not> isPropsUIPromptConsentForm gs body \<and> \<not> isPropsUIPromptRadioInput gs body
          \<and> \<not> isPropsUIPromptQuestionnaire gs body)
     \<and> (isl (renderBody gs locale props) \<longleftrightarrow>
          renderBody gs locale props = Inl (TypeError ''Unknown body type''))"
  using assms by (simp add: renderBody_def Let_def)

theorem renderBody_discriminates_witness:
  "renderBody guards_by_tag (JStr ''en'')
      (JObj [(''body'', JObj [(''__type__'', JStr ''PropsUIPromptConfirm'')]), (''resolve'', JNull)]) =
     Inr (Confirm (JObj [(''__type__'', JStr ''PropsUIPromptConfirm'')])
            (JObj [(''locale'', JStr ''en''), (''resolve'', JNull)]))
   \<and> renderBody guards_by_tag (JStr ''en'')
      (JObj [(''body'', JObj [(''__type__'', JStr ''PropsUIPromptTable'')]), (''resolve'', JNull)]) =
     Inl (TypeError ''Unknown body type'')"
proof -
  have b1: "get (JObj [(''body'', JObj [(''__type__'', JStr ''PropsUIPromptConfirm'')]), (''resolve'', JNull)])
              ''body'' = Inr (JObj [(''__type__'', JStr ''PropsUIPromptConfirm'')])"
    and r1: "get (JObj [(''body'', JObj [(''__type__'', JStr ''PropsUIPromptConfirm'')]), (''resolve'', JNull)])
              ''resolve'' = Inr JNull"
    and b2: "get (JObj [(''body'', JObj [(''__type__'', JStr ''PropsUIPromptTable'')]), (''resolve'', JNull)])
              ''body'' = Inr (JObj [(''__type__'', JStr ''PropsUIPromptTable'')])"
    and r2: "get (JObj [(''body'', JObj [(''__type__'', JStr ''PropsUIPromptTable'')]), (''resolve'', JNull)])
              ''resolve'' = Inr JNull"
    by simp_all
  have c1: "renderBody guards_by_tag (JStr ''en'')
      (JObj [(''body'', JObj [(''__type__'', JStr ''PropsUIPromptConfirm'')]), (''resolve'', JNull)]) =
     Inr (Confirm (JObj [(''__type__'', JStr ''PropsUIPromptConfirm'')])
            (JObj [(''locale'', JStr ''en''), (''resolve'', JNull)]))"
    using renderBody_discriminates[OF b1 r1, of guards_by_tag "JStr ''en''"]
    by (simp add: guards_by_tag_def)
  have c2: "renderBody guards_by_tag (JStr ''en'')
      (JObj [(''body'', JObj [(''__type__'', JStr ''PropsUIPromptTable'')]), (''resolve'', JNull)]) =
     Inl (TypeError ''Unknown body type'')"
    using renderBody_discriminates[OF b2 r2, of guards_by_tag "JStr ''en''"]
    by (simp add: guards_by_tag_def)
  from c1 c2 show ?thesis by blast
qed


text \<open>
  C1.  In a session in which \<^verbatim>\<open>start\<close> is called at most once, whatever the script, the
  handler, the loading and the order of events do: at any moment at most one thing is under
  way (a message in either direction, the loading, or a Command with the handler), so at
  most one Command of the script is outstanding; every \<^verbatim>\<open>nextRunCycle\<close> message in the
  engine's history was posted by the reaction to the fulfilment of the handler promise of
  the current Command (the Command taken last from the script), a promise that had not
  settled before, and carries the response of that promise; and the engine has posted no
  more \<^verbatim>\<open>nextRunCycle\<close> messages than it has taken Commands from the script and got back
  from the handler.
\<close>

theorem strict_alternation:
  assumes "length (filter (\<lambda>ev. ev = Start) evs) \<le> 1"
  shows "in_flight (run isCommand py (new_session sid) evs) \<le> 1
     \<and> awaited (promises (eng (run isCommand py (new_session sid) evs)))
         + length (filter (has_eventType ''runCycleDone'')
                     (outbox (wrk (run isCommand py (new_session sid) evs)))) \<le> 1
     \<and> justified (rev (etrace (eng (run isCommand py (new_session sid) evs))))
     \<and> length (filter posts_next (etrace (eng (run isCommand py (new_session sid) evs))))
         + awaited (promises (eng (run isCommand py (new_session sid) evs)))
         \<le> length (filter takes_command (etrace (eng (run isCommand py (new_session sid) evs))))"
proof -
  let ?s = "run isCommand py (new_session sid) evs"
  have one: "in_flight ?s \<le> 1"
    using in_flight_run[of isCommand py "new_session sid" evs] assms
    by (simp add: in_flight_new_session)
  have le: "length (filter (has_eventType ''runCycleDone'') (outbox (wrk ?s))) \<le> length (outbox (wrk ?s))"
    by (rule length_filter_le)
  have two: "awaited (promises (eng ?s))
      + length (filter (has_eventType ''runCycleDone'') (outbox (wrk ?s))) \<le> 1"
    using one le unfolding in_flight_def by linarith
  have three: "justified (rev (etrace (eng ?s)))"
    using answered_run[OF assms, of isCommand py sid] by blast
  have "owed (eng ?s)"
    by (rule owed_run) (rule owed_new_session)
  then have four: "length (filter posts_next (etrace (eng ?s))) + awaited (promises (eng ?s))
      \<le> length (filter takes_command (etrace (eng ?s)))"
    by (simp add: owed_def)
  from one two three four show ?thesis by blast
qed

theorem strict_alternation_witness:
  "length (filter (\<lambda>ev. ev = Start)
      [Start, ToWorker, Loaded 0 None, Loaded 0 None, Loaded 0 None, ToEngine, ToWorker, ToEngine,
       Handler 0 (Fulfilled (JStr ''tracked'')),
       Handler 2 (Fulfilled (JObj [(''payload'', JObj [(''__type__'', JStr ''PayloadVoid'')])])),
       ToWorker, ToEngine,
       Handler 3 (Fulfilled (JObj [(''payload'', JObj [(''__type__'', JStr ''PayloadString''),
                                                      (''value'', JStr ''yes'')])]))]) \<le> 1
   \<and> filter posted (etrace (eng (run isCommand_by_tag example_script (new_session ''1700000000000'')
      [Start, ToWorker, Loaded 0 None, Loaded 0 None, Loaded 0 None, ToEngine, ToWorker, ToEngine,
       Handler 0 (Fulfilled (JStr ''tracked'')),
       Handler 2 (Fulfilled (JObj [(''payload'', JObj [(''__type__'', JStr ''PayloadVoid'')])])),
       ToWorker, ToEngine,
       Handler 3 (Fulfilled (JObj [(''payload'', JObj [(''__type__'', JStr ''PayloadString''),
                                                      (''value'', JStr ''yes'')])]))]))) =
      [Post (JObj [(''eventType'', JStr ''initialise'')]),
       Post (JObj [(''eventType'', JStr ''firstRunCycle''), (''sessionId'', JStr ''1700000000000'')]),
       Post (JObj [(''eventType'', JStr ''nextRunCycle''),
                   (''response'', JObj [(''payload'', JObj [(''__type__'', JStr ''PayloadVoid'')])])]),
       Post (JObj [(''eventType'', JStr ''nextRunCycle''),
                   (''response'', JObj [(''payload'', JObj [(''__type__'', JStr ''PayloadString''),
                                                           (''value'', JStr ''yes'')])])])]
   \<and> in_flight (run isCommand_by_tag example_script (new_session ''1700000000000'')
      [Start, ToWorker, Loaded 0 None, Loaded 0 None, Loaded 0 None, ToEngine, ToWorker, ToEngine,
       Handler 0 (Fulfilled (JStr ''tracked'')),
       Handler 2 (Fulfilled (JObj [(''payload'', JObj [(''__type__'', JStr ''PayloadVoid'')])])),
       ToWorker, ToEngine,
       Handler 3 (Fulfilled (JObj [(''payload'', JObj [(''__type__'', JStr ''PayloadString''),
                                                      (''value'', JStr ''yes'')])]))]) \<le> 1
   \<and> justified (rev (etrace (eng (run isCommand_by_tag example_script (new_session ''1700000000000'')
      [Start, ToWorker, Loaded 0 None, Loaded 0 None, Loaded 0 None, ToEngine, ToWorker, ToEngine,
       Handler 0 (Fulfilled (JStr ''tracked'')),
       Handler 2 (Fulfilled (JObj [(''payload'', JObj [(''__type__'', JStr ''PayloadVoid'')])])),
       ToWorker, ToEngine,
       Handler 3 (Fulfilled (JObj [(''payload'', JObj [(''__type__'', JStr ''PayloadString''),
                                                      (''value'', JStr ''yes'')])]))]))))"
proof -
  let ?evs = "[Start, ToWorker, Loaded 0 None, Loaded 0 None, Loaded 0 None, ToEngine, ToWorker, ToEngine,
       Handler 0 (Fulfilled (JStr ''tracked'')),
       Handler 2 (Fulfilled (JObj [(''payload'', JObj [(''__type__'', JStr ''PayloadVoid'')])])),
       ToWorker, ToEngine,
       Handler 3 (Fulfilled (JObj [(''payload'', JObj [(''__type__'', JStr ''PayloadString''),
                                                      (''value'', JStr ''yes'')])]))]"
  have h: "length (filter (\<lambda>ev. ev = Start) ?evs) \<le> 1"
    by simp
  have p: "filter posted (etrace (eng (run isCommand_by_tag example_script
              (new_session ''1700000000000'') ?evs))) =
      [Post (JObj [(''eventType'', JStr ''initialise'')]),
       Post (JObj [(''eventType'', JStr ''firstRunCycle''), (''sessionId'', JStr ''1700000000000'')]),
       Post (JObj [(''eventType'', JStr ''nextRunCycle''),
                   (''response'', JObj [(''payload'', JObj [(''__type__'', JStr ''PayloadVoid'')])])]),
       Post (JObj [(''eventType'', JStr ''nextRunCycle''),
                   (''response'', JObj [(''payload'', JObj [(''__type__'', JStr ''PayloadString''),
                                                           (''value'', JStr ''yes'')])])])]"
    by code_simp
  from h p strict_alternation[OF h, of isCommand_by_tag example_script "''1700000000000''"]
  show ?thesis by blast
qed




text \<open>
  C3.  In a session in which \<^verbatim>\<open>start\<close> is called at most once, the engine's history holds,
  of the actions of the handshake, nothing before \<^verbatim>\<open>start\<close>, and after it either the one
  \<^verbatim>\<open>initialise\<close> message alone or, in this order, the \<^verbatim>\<open>initialise\<close> message, the receipt
  of \<^verbatim>\<open>initialiseDone\<close>, the call of the handler with \<^verbatim>\<open>CommandSystemEvent\<close>
  \<^verbatim>\<open>initialized\<close> and the \<^verbatim>\<open>firstRunCycle\<close> message with the session id, each once.  The
  second is reached when the runtime loads.  The handler call and the \<^verbatim>\<open>firstRunCycle\<close>
  message are made by the same reaction to \<^verbatim>\<open>initialiseDone\<close>, and when the handler's promise
  settles, either way, the engine only notes it.
\<close>

theorem initialisation_handshake:
  assumes "length (filter (\<lambda>ev. ev = Start) evs) \<le> 1"
  shows "(Start \<notin> set evs \<longrightarrow>
            filter handshake (etrace (eng (run isCommand py (new_session sid) evs))) = [])
     \<and> (Start \<in> set evs \<longrightarrow>
            filter handshake (etrace (eng (run isCommand py (new_session sid) evs))) =
              [Post (JObj [(''eventType'', JStr ''initialise'')])]
          \<or> filter handshake (etrace (eng (run isCommand py (new_session sid) evs))) =
              [Post (JObj [(''eventType'', JStr ''initialise'')]),
               Received (JObj [(''eventType'', JStr ''initialiseDone'')]),
               Dispatch (JObj [(''__type__'', JStr ''CommandSystemEvent''),
                               (''name'', JStr ''initialized'')]) Noop,
               Post (JObj [(''eventType'', JStr ''firstRunCycle''), (''sessionId'', JStr sid)])])
     \<and> (importScripts py = None \<longrightarrow>
            filter handshake (etrace (eng (run isCommand py (new_session sid)
              [Start, ToWorker, Loaded 0 None, Loaded 0 None, Loaded 0 None, ToEngine]))) =
              [Post (JObj [(''eventType'', JStr ''initialise'')]),
               Received (JObj [(''eventType'', JStr ''initialiseDone'')]),
               Dispatch (JObj [(''__type__'', JStr ''CommandSystemEvent''),
                               (''name'', JStr ''initialized'')]) Noop,
               Post (JObj [(''eventType'', JStr ''firstRunCycle''), (''sessionId'', JStr sid)])])
     \<and> (resolveInitialized e = Some False \<longrightarrow>
            onmessage isCommand (JObj [(''eventType'', JStr ''initialiseDone'')]) e =
              e\<lparr>worker := worker e @
                   [JObj [(''eventType'', JStr ''firstRunCycle''), (''sessionId'', JStr (sessionId e))]],
                resolveInitialized := Some True,
                promises := promises e @ [Some Noop],
                etrace := etrace e @
                   [Received (JObj [(''eventType'', JStr ''initialiseDone'')]),
                    Log ''[WorkerProcessingEngine] Received event from worker: '' [JStr ''initialiseDone''],
                    Log ''[ReactEngine] received eventType: '' [JStr ''initialiseDone''],
                    Log ''[ReactEngine] received: initialiseDone'' [],
                    Dispatch (JObj [(''__type__'', JStr ''CommandSystemEvent''),
                                    (''name'', JStr ''initialized'')]) Noop,
                    Post (JObj [(''eventType'', JStr ''firstRunCycle''),
                                (''sessionId'', JStr (sessionId e))])]\<rparr>
          \<and> settle (length (promises e)) out
              (onmessage isCommand (JObj [(''eventType'', JStr ''initialiseDone'')]) e) =
              (onmessage isCommand (JObj [(''eventType'', JStr ''initialiseDone'')]) e)
                \<lparr>promises := promises e @ [None],
                 etrace := etrace (onmessage isCommand (JObj [(''eventType'', JStr ''initialiseDone'')]) e)
                             @ [Settled (length (promises e)) out]\<rparr>)"
proof -
  let ?s = "run isCommand py (new_session sid) evs"
  note ph = phases_run[OF assms, of sid isCommand py]
  have one: "Start \<notin> set evs \<longrightarrow> filter handshake (etrace (eng ?s)) = []"
    using ph by (auto simp: before_start_def)
  have two: "Start \<in> set evs \<longrightarrow>
      filter handshake (etrace (eng ?s)) = [Post (JObj [(''eventType'', JStr ''initialise'')])]
      \<or> filter handshake (etrace (eng ?s)) = completed_handshake sid"
    using ph by (auto simp: initialising_def cycling_def)
  have three: "importScripts py = None \<longrightarrow>
      filter handshake (etrace (eng (run isCommand py (new_session sid)
        [Start, ToWorker, Loaded 0 None, Loaded 0 None, Loaded 0 None, ToEngine]))) =
      completed_handshake sid"
    using handshake_completes[of py isCommand sid] by blast
  have four: "resolveInitialized e = Some False \<longrightarrow>
      settle (length (promises e)) out
        (onmessage isCommand (JObj [(''eventType'', JStr ''initialiseDone'')]) e) =
        (onmessage isCommand (JObj [(''eventType'', JStr ''initialiseDone'')]) e)
          \<lparr>promises := promises e @ [None],
           etrace := etrace (onmessage isCommand (JObj [(''eventType'', JStr ''initialiseDone'')]) e)
                       @ [Settled (length (promises e)) out]\<rparr>"
  proof
    assume r: "resolveInitialized e = Some False"
    have "promises (onmessage isCommand (JObj [(''eventType'', JStr ''initialiseDone'')]) e) =
            promises e @ [Some Noop]"
      by (simp add: onmessage_initialiseDone[OF r])
    then show "settle (length (promises e)) out
        (onmessage isCommand (JObj [(''eventType'', JStr ''initialiseDone'')]) e) =
        (onmessage isCommand (JObj [(''eventType'', JStr ''initialiseDone'')]) e)
          \<lparr>promises := promises e @ [None],
           etrace := etrace (onmessage isCommand (JObj [(''eventType'', JStr ''initialiseDone'')]) e)
                       @ [Settled (length (promises e)) out]\<rparr>"
      by (rule settle_last_Noop)
  qed
  from one two three four onmessage_initialiseDone[of e isCommand] show ?thesis
    unfolding completed_handshake_def by blast
qed

theorem initialisation_handshake_witness:
  "length (filter (\<lambda>ev. ev = Start)
      [Start, ToWorker, Loaded 0 None, Loaded 0 None, Loaded 0 None, ToEngine, ToWorker, ToEngine]) \<le> 1
   \<and> Start \<in> set [Start, ToWorker, Loaded 0 None, Loaded 0 None, Loaded 0 None, ToEngine, ToWorker, ToEngine]
   \<and> importScripts example_script = None
   \<and> filter handshake (etrace (eng (run isCommand_by_tag example_script (new_session ''1700000000000'')
        [Start, ToWorker, Loaded 0 None, Loaded 0 None, Loaded 0 None, ToEngine, ToWorker, ToEngine]))) =
      [Post (JObj [(''eventType'', JStr ''initialise'')]),
       Received (JObj [(''eventType'', JStr ''initialiseDone'')]),
       Dispatch (JObj [(''__type__'', JStr ''CommandSystemEvent''), (''name'', JStr ''initialized'')]) Noop,
       Post (JObj [(''eventType'', JStr ''firstRunCycle''), (''sessionId'', JStr ''1700000000000'')])]
   \<and> filter handshake (etrace (eng (run isCommand_by_tag example_script (new_session ''1700000000000'')
        [Start, ToWorker, Loaded 0 None, Loaded 0 None, Loaded 0 None, ToEngine]))) =
      [Post (JObj [(''eventType'', JStr ''initialise'')]),
       Received (JObj [(''eventType'', JStr ''initialiseDone'')]),
       Dispatch (JObj [(''__type__'', JStr ''CommandSystemEvent''), (''name'', JStr ''initialized'')]) Noop,
       Post (JObj [(''eventType'', JStr ''firstRunCycle''), (''sessionId'', JStr ''1700000000000'')])]"
proof -
  let ?evs = "[Start, ToWorker, Loaded 0 None, Loaded 0 None, Loaded 0 None, ToEngine, ToWorker, ToEngine]"
  have h: "length (filter (\<lambda>ev. ev = Start) ?evs) \<le> 1"
    by simp
  have m: "Start \<in> set ?evs"
    by simp
  have i: "importScripts example_script = None"
    by (simp add: example_script_def)
  have n: "filter handshake (etrace (eng (run isCommand_by_tag example_script
             (new_session ''1700000000000'') ?evs))) \<noteq> [Post (JObj [(''eventType'', JStr ''initialise'')])]"
    by code_simp
  from h m i n
    initialisation_handshake[OF h, of isCommand_by_tag example_script "''1700000000000''"
      "constructor ''1700000000000''" "Fulfilled JNull"]
  show ?thesis by blast
qed

text \<open>
  C4.  A \<^verbatim>\<open>runCycleDone\<close> event whose \<^verbatim>\<open>scriptEvent\<close> is not a Command makes the engine log
  the event and do nothing else: no message is posted, no handler is called, no exception
  leaves the handler.  In a session in which \<^verbatim>\<open>start\<close> is called at most once, nothing is
  under way once that event is delivered, and whatever happens later short of another
  \<^verbatim>\<open>start\<close>, the engine posts no further message.
\<close>

theorem unrecognized_command_stops_the_cycle:
  assumes "get data ''eventType'' = Inr (JStr ''runCycleDone'')"
    and "get data ''scriptEvent'' = Inr c"
    and "\<not> isCommand c"
  shows "onmessage isCommand data e =
       e\<lparr>etrace := etrace e @
          [Received data,
           Log ''[WorkerProcessingEngine] Received event from worker: '' [JStr ''runCycleDone''],
           Log ''[ReactEngine] received eventType: '' [JStr ''runCycleDone''],
           Log ''[ReactEngine] received: event'' [c]]\<rparr>
     \<and> (length (filter (\<lambda>ev. ev = Start) evs) \<le> 1
          \<and> outbox (wrk (run isCommand py (new_session sid) evs)) = data # ms
          \<and> Start \<notin> set later \<longrightarrow>
          in_flight (run isCommand py (new_session sid) (evs @ ToEngine # later)) = 0
          \<and> filter posted (etrace (eng (run isCommand py (new_session sid) (evs @ ToEngine # later)))) =
             filter posted (etrace (eng (run isCommand py (new_session sid) evs))))"
  using onmessage_unrecognized[of data c isCommand e, OF assms]
    stalled_after_unrecognized[of evs isCommand py sid data ms c later, OF _ _ assms]
  by blast

theorem unrecognized_command_stops_the_cycle_witness:
  "get (runCycleDone (JObj [(''__type__'', JStr ''CommandUnknown'')])) ''eventType'' = Inr (JStr ''runCycleDone'')
   \<and> get (runCycleDone (JObj [(''__type__'', JStr ''CommandUnknown'')])) ''scriptEvent'' =
        Inr (JObj [(''__type__'', JStr ''CommandUnknown'')])
   \<and> \<not> isCommand_by_tag (JObj [(''__type__'', JStr ''CommandUnknown'')])
   \<and> outbox (wrk (run isCommand_by_tag example_script (new_session ''1700000000000'')
        [Start, ToWorker, Loaded 0 None, Loaded 0 None, Loaded 0 None, ToEngine, ToWorker, ToEngine,
         Handler 2 (Fulfilled (JObj [(''payload'', JObj [(''__type__'', JStr ''PayloadVoid'')])])),
         ToWorker, ToEngine,
         Handler 3 (Fulfilled (JObj [(''payload'', JObj [(''__type__'', JStr ''PayloadVoid'')])])),
         ToWorker])) =
      [runCycleDone (JObj [(''__type__'', JStr ''CommandUnknown'')])]
   \<and> in_flight (run isCommand_by_tag example_script (new_session ''1700000000000'')
       ([Start, ToWorker, Loaded 0 None, Loaded 0 None, Loaded 0 None, ToEngine, ToWorker, ToEngine,
         Handler 2 (Fulfilled (JObj [(''payload'', JObj [(''__type__'', JStr ''PayloadVoid'')])])),
         ToWorker, ToEngine,
         Handler 3 (Fulfilled (JObj [(''payload'', JObj [(''__type__'', JStr ''PayloadVoid'')])])),
         ToWorker]
        @ ToEngine # [Handler 0 (Fulfilled JNull), ToWorker, ToEngine, Loaded 0 None])) = 0"
proof -
  let ?data = "runCycleDone (JObj [(''__type__'', JStr ''CommandUnknown'')])"
  let ?evs = "[Start, ToWorker, Loaded 0 None, Loaded 0 None, Loaded 0 None, ToEngine, ToWorker, ToEngine,
         Handler 2 (Fulfilled (JObj [(''payload'', JObj [(''__type__'', JStr ''PayloadVoid'')])])),
         ToWorker, ToEngine,
         Handler 3 (Fulfilled (JObj [(''payload'', JObj [(''__type__'', JStr ''PayloadVoid'')])])),
         ToWorker]"
  let ?later = "[Handler 0 (Fulfilled JNull), ToWorker, ToEngine, Loaded 0 None]"
  have h1: "get ?data ''eventType'' = Inr (JStr ''runCycleDone'')"
    and h2: "get ?data ''scriptEvent'' = Inr (JObj [(''__type__'', JStr ''CommandUnknown'')])"
    by (simp_all add: runCycleDone_def)
  have h3: "\<not> isCommand_by_tag (JObj [(''__type__'', JStr ''CommandUnknown'')])"
    by (simp add: isCommand_by_tag_def)
  have h4: "length (filter (\<lambda>ev. ev = Start) ?evs) \<le> 1"
    by simp
  have h5: "outbox (wrk (run isCommand_by_tag example_script (new_session ''1700000000000'') ?evs)) =
      ?data # []"
    by code_simp
  have h6: "Start \<notin> set ?later"
    by simp
  from h1 h2 h3 h4 h5 h6
    unrecognized_command_stops_the_cycle[where isCommand = isCommand_by_tag and data = ?data
      and c = "JObj [(''__type__'', JStr ''CommandUnknown'')]" and e = "constructor ''1700000000000''"
      and evs = ?evs and py = example_script and sid = "''1700000000000''" and ms = "[]"
      and later = ?later, OF h1 h2 h3]
  show ?thesis by blast
qed

end
